theory Spec2Isabelle
  imports Complex_Main
begin

section \<open>Errors and sequencing\<close>

text \<open>
  The notebook is Python: a failing operation raises, and the exception leaves the
  function that was running. A computation of the model therefore returns
  \<open>py_error + 'a\<close>, with \<open>Inl\<close> for the raised exception.
  \<open>ConfigurationError\<close> is the class the specification names; the other
  constructors are the built-in exceptions the notebook's statements can raise.
\<close>

datatype py_error =
  IndexError | TypeError | ValueError | ZeroDivisionError | UnboundLocalError
  | AttributeError | ConfigurationError

definition and_then :: "'e + 'a \<Rightarrow> ('a \<Rightarrow> 'e + 'b) \<Rightarrow> 'e + 'b" where
  "and_then m f = (case m of Inl e \<Rightarrow> Inl e | Inr v \<Rightarrow> f v)"

text \<open>\<open>a / b\<close> on floats raises ZeroDivisionError when \<open>b\<close> is zero.\<close>

definition py_div :: "real \<Rightarrow> real \<Rightarrow> py_error + real" where
  "py_div a b = (if b = 0 then Inl ZeroDivisionError else Inr (a / b))"

text \<open>\<open>math.sqrt\<close> raises ValueError (math domain error) on a negative argument.\<close>

definition py_sqrt :: "real \<Rightarrow> py_error + real" where
  "py_sqrt a = (if a < 0 then Inl ValueError else Inr (sqrt a))"

text \<open>
  \<open>math.tanh\<close> returns a double. Where the real \<open>tanh x\<close> is within
  \<open>1 / 2 ^ 54\<close> of 1 (half the distance from 1.0 to the double below it) the
  result rounds to exactly 1.0, and likewise to -1.0; this happens from about
  \<open>x = 19.1\<close> on. Elsewhere the result is read as the real \<open>tanh x\<close>.
\<close>

definition py_tanh :: "real \<Rightarrow> real" where
  "py_tanh x =
     (if 1 - tanh x \<le> 1 / 2 ^ 54 then 1
      else if 1 + tanh x \<le> 1 / 2 ^ 54 then - 1
      else tanh x)"

text \<open>\<open>x[i]\<close> for a constant index \<open>i \<ge> 0\<close>: IndexError past the end.\<close>

definition py_index :: "'a list \<Rightarrow> nat \<Rightarrow> py_error + 'a" where
  "py_index xs i = (if i < length xs then Inr (xs ! i) else Inl IndexError)"

section \<open>The evaluation function \<open>welded_beam_design\<close>\<close>

text \<open>
  Python floats are read as real numbers: every arithmetic operation is the exact one,
  the two operations that raise (division, square root) are the fallible ones above, and
  \<open>math.tanh\<close> is \<open>py_tanh\<close>, which saturates at 1.0 as the doubles do.

  The section ``problem encoding'' of the function: the four design variables, from the
  four genes.
\<close>

definition problem_encoding :: "real list \<Rightarrow> py_error + (real \<times> real \<times> real \<times> real)" where
  "problem_encoding x =
     and_then (py_index x 0) (\<lambda>x0.
       let b = 0.125 + 4.875 * x0 in
     and_then (py_index x 1) (\<lambda>x1.
       let h = 0.125 + (b - 0.125) * x1 in
     and_then (py_index x 2) (\<lambda>x2.
       let l = 0.1 + 9.9 * x2 in
     and_then (py_index x 3) (\<lambda>x3.
       let t = 0.1 + 9.9 * x3 in
     Inr (b, h, l, t)))))"

text \<open>
  The rest of the function, statement by statement and in the source's order:
  auxiliary terms, fitness functions, scaling, constraints, penalty, \<open>tanh\<close>.
\<close>

definition beam_fitness :: "real \<Rightarrow> real \<Rightarrow> real \<Rightarrow> real \<Rightarrow> py_error + real list" where
  "beam_fitness b h l t =
     and_then (py_div 504000 (t * t * b)) (\<lambda>sigma.
     and_then (py_sqrt 2) (\<lambda>root2.
     and_then (py_div 6000 (root2 * h * l)) (\<lambda>tau1.
     and_then (py_sqrt (0.25 * (l * l + (h + t) * (h + t)))) (\<lambda>ra.
     and_then (py_div (6000 * (14 + 0.5 * l) * ra)
                 (1.414 * h * l * (l * l / 12 + 0.25 * (h + t) * (h + t)))) (\<lambda>tau2.
     and_then (py_sqrt (0.25 * (l * l + (h + t) * (h + t)))) (\<lambda>rb.
     and_then (py_div (l * tau1 * tau2) rb) (\<lambda>q.
     and_then (py_sqrt (tau1 * tau1 + tau2 * tau2 + q)) (\<lambda>tau.
       let P_c = 64746.022 * (1 - 0.0282346 * t) * t * b * b * b;
           f1 = 1.10471 * h * h * l + 0.04811 * t * b * (14 + l) in
     and_then (py_div 2.1952 (t * t * t * b)) (\<lambda>f2.
       let f1 = f1 / 40;
           f2 = f2 / 0.006;
           g1 = tau - 13600;
           g2 = sigma - 30000;
           g3 = 6000 - P_c;
           penalty = max (0.000001 * g1) 0 + max (0.000001 * g2) 0 + max (0.0000001 * g3) 0;
           penalty = (if penalty > 0 then penalty + 0.5 else penalty);
           f1 = f1 + penalty;
           f2 = f2 + penalty
       in Inr [py_tanh f1, py_tanh f2])))))))))"

definition welded_beam_design :: "real list \<Rightarrow> py_error + real list" where
  "welded_beam_design x =
     and_then (problem_encoding x) (\<lambda>(b, h, l, t). beam_fitness b h l t)"


subsection \<open>The function as the specification describes it\<close>

text \<open>
  The specification describes the function in two steps: raw objectives and constraints,
  then scaling, penalty and \<open>tanh\<close>. \<open>raw_terms\<close> is the first step, taken
  from the source (the same statements, up to the constraints); \<open>claimed_fitness\<close>
  is the second step, written from the specification's words: a weighted sum of the
  positive parts of the constraints, a flat 0.5 added when that sum is strictly positive,
  the penalty added to both scaled objectives, \<open>math.tanh\<close> of each.
\<close>

definition raw_terms :: "real \<Rightarrow> real \<Rightarrow> real \<Rightarrow> real \<Rightarrow> py_error + (real \<times> real \<times> real \<times> real \<times> real)" where
  "raw_terms b h l t =
     and_then (py_div 504000 (t * t * b)) (\<lambda>sigma.
     and_then (py_sqrt 2) (\<lambda>root2.
     and_then (py_div 6000 (root2 * h * l)) (\<lambda>tau1.
     and_then (py_sqrt (0.25 * (l * l + (h + t) * (h + t)))) (\<lambda>ra.
     and_then (py_div (6000 * (14 + 0.5 * l) * ra)
                 (1.414 * h * l * (l * l / 12 + 0.25 * (h + t) * (h + t)))) (\<lambda>tau2.
     and_then (py_sqrt (0.25 * (l * l + (h + t) * (h + t)))) (\<lambda>rb.
     and_then (py_div (l * tau1 * tau2) rb) (\<lambda>q.
     and_then (py_sqrt (tau1 * tau1 + tau2 * tau2 + q)) (\<lambda>tau.
     and_then (py_div 2.1952 (t * t * t * b)) (\<lambda>f2.
     Inr (1.10471 * h * h * l + 0.04811 * t * b * (14 + l), f2,
          tau - 13600, sigma - 30000,
          6000 - 64746.022 * (1 - 0.0282346 * t) * t * b * b * b))))))))))"

definition positive_part :: "real \<Rightarrow> real" where
  "positive_part g = max g 0"

definition claimed_fitness :: "real \<times> real \<times> real \<times> real \<times> real \<Rightarrow> real list" where
  "claimed_fitness r =
     (case r of (f1, f2, g1, g2, g3) \<Rightarrow>
        let violation = 0.000001 * positive_part g1 + 0.000001 * positive_part g2
                        + 0.0000001 * positive_part g3;
            penalty = (if 0 < violation then violation + 0.5 else violation)
        in [py_tanh (f1 / 40 + penalty), py_tanh (f2 / 0.006 + penalty)])"

section \<open>Individuals, the random generator and the DEAP operators\<close>

text \<open>
  An individual is an array of genes with a fitness attribute
  (\<open>creator.create("Individual", array.array, typecode='d', fitness=creator.Fitness)\<close>).
  What the library attaches to an individual besides (the crowding distance, which
  \<open>selNSGA2\<close> assigns and \<open>selTournamentDCD\<close> reads) lives in the record's
  extension \<open>'m\<close>; the notebook never looks at it.
\<close>

record individual =
  genes :: "real list"
  fitness_values :: "real list"

text \<open>
  The operators of DEAP, the hypervolume indicator and Python's random generator are
  collaborators outside the notebook: they are parameters of the model. \<open>'r\<close> is the
  state of the generator; an operator that draws random numbers takes the state and
  returns the new one. The operators work in place on the objects they are given; here
  they return the new values, and the caller stores them where the objects were. Each
  operator may raise.
\<close>

record ('m, 'r) deap =
  py_random :: "'r \<Rightarrow> real \<times> 'r"
  Individual :: "real list \<Rightarrow> 'm individual_scheme"
  selNSGA2 :: "'m individual_scheme list \<Rightarrow> int \<Rightarrow> py_error + 'm individual_scheme list"
  selTournamentDCD ::
    "'m individual_scheme list \<Rightarrow> int \<Rightarrow> 'r \<Rightarrow> py_error + ('m individual_scheme list \<times> 'r)"
  cxSimulatedBinaryBounded ::
    "'m individual_scheme \<Rightarrow> 'm individual_scheme \<Rightarrow> real \<Rightarrow> real \<Rightarrow> real \<Rightarrow> 'r
       \<Rightarrow> py_error + (('m individual_scheme \<times> 'm individual_scheme) \<times> 'r)"
  mutPolynomialBounded ::
    "'m individual_scheme \<Rightarrow> real \<Rightarrow> real \<Rightarrow> real \<Rightarrow> real \<Rightarrow> 'r
       \<Rightarrow> py_error + ('m individual_scheme \<times> 'r)"
  sortNondominated :: "'m individual_scheme list \<Rightarrow> int \<Rightarrow> py_error + 'm individual_scheme list list"
  hypervolume :: "'m individual_scheme list \<Rightarrow> real list \<Rightarrow> py_error + real"

section \<open>The toolbox\<close>

text \<open>
  \<open>toolbox.register(alias, function, **kargs)\<close> stores
  \<open>functools.partial(function, **kargs)\<close> under the alias. A partial object
  freezes its keyword arguments (\<open>kwargs\<close>) and, like any object, has an attribute
  dictionary (\<open>attrs\<close>). Calling the object passes the frozen keywords to the
  function; assigning an attribute writes the dictionary and nothing else. Only the
  numeric keywords and attributes are kept.
\<close>

record partial_object =
  kwargs :: "string \<rightharpoonup> real"
  attrs :: "string \<rightharpoonup> real"

definition register :: "(string \<times> real) list \<Rightarrow> partial_object" where
  "register kargs = \<lparr>kwargs = map_of kargs, attrs = Map.empty\<rparr>"

definition setattr :: "partial_object \<Rightarrow> string \<Rightarrow> real \<Rightarrow> partial_object" where
  "setattr p name v = p\<lparr>attrs := (attrs p)(name \<mapsto> v)\<rparr>"

record toolbox =
  evaluate :: "real list \<Rightarrow> py_error + real list"
  mate :: partial_object
  mutate :: partial_object

definition attribute_bound_lower :: real where
  "attribute_bound_lower = 0"

definition attribute_bound_upper :: real where
  "attribute_bound_upper = 1"

definition number_of_attributes :: nat where
  "number_of_attributes = 4"

definition reference_point :: "real list" where
  "reference_point = [1.1, 1.1]"

text \<open>The registrations of the notebook's cell ``NSGA2 algorithm''.\<close>

definition registered_mate :: partial_object where
  "registered_mate =
     register [(''low'', attribute_bound_lower), (''up'', attribute_bound_upper), (''eta'', 20)]"

definition registered_mutate :: partial_object where
  "registered_mutate =
     register [(''low'', attribute_bound_lower), (''up'', attribute_bound_upper), (''eta'', 20),
               (''indpb'', 0.1)]"

definition notebook_toolbox :: toolbox where
  "notebook_toolbox =
     \<lparr>evaluate = welded_beam_design, mate = registered_mate, mutate = registered_mutate\<rparr>"

text \<open>
  \<open>toolbox.mate(ind1, ind2)\<close> and \<open>toolbox.mutate(ind)\<close>: the calls of the partial
  objects. A keyword the function requires and the object does not hold is a TypeError.
\<close>

definition call_mate ::
  "('m, 'r) deap \<Rightarrow> partial_object \<Rightarrow> 'm individual_scheme \<Rightarrow> 'm individual_scheme \<Rightarrow> 'r
     \<Rightarrow> py_error + (('m individual_scheme \<times> 'm individual_scheme) \<times> 'r)" where
  "call_mate lib p ind1 ind2 r =
     (case (kwargs p ''eta'', kwargs p ''low'', kwargs p ''up'') of
        (Some eta, Some low, Some up) \<Rightarrow> cxSimulatedBinaryBounded lib ind1 ind2 eta low up r
      | _ \<Rightarrow> Inl TypeError)"

definition call_mutate ::
  "('m, 'r) deap \<Rightarrow> partial_object \<Rightarrow> 'm individual_scheme \<Rightarrow> 'r
     \<Rightarrow> py_error + ('m individual_scheme \<times> 'r)" where
  "call_mutate lib p ind r =
     (case (kwargs p ''eta'', kwargs p ''low'', kwargs p ''up'', kwargs p ''indpb'') of
        (Some eta, Some low, Some up, Some indpb) \<Rightarrow> mutPolynomialBounded lib ind eta low up indpb r
      | _ \<Rightarrow> Inl TypeError)"

section \<open>Auxiliary functions\<close>

text \<open>
  \<open>initialization_uniform\<close>, as the toolbox calls it: with two floats as bounds,
  \<open>zip\<close> of the bounds raises TypeError and the handler draws \<open>size\<close> numbers,
  each \<open>random.uniform(a, b) = a + (b - a) * random.random()\<close>.
\<close>

fun uniform_list :: "('m, 'r) deap \<Rightarrow> (real \<times> real) list \<Rightarrow> 'r \<Rightarrow> real list \<times> 'r" where
  "uniform_list lib [] r = ([], r)"
| "uniform_list lib ((a, b) # bounds) r =
     (let (u, r1) = py_random lib r;
          (rest, r2) = uniform_list lib bounds r1
      in ((a + (b - a) * u) # rest, r2))"

definition initialization_uniform ::
  "('m, 'r) deap \<Rightarrow> real \<Rightarrow> real \<Rightarrow> nat \<Rightarrow> 'r \<Rightarrow> real list \<times> 'r" where
  "initialization_uniform lib bound_lower bound_upper size' r =
     uniform_list lib (zip (replicate size' bound_lower) (replicate size' bound_upper)) r"

text \<open>
  \<open>toolbox.population(n)\<close>: \<open>n\<close> times \<open>toolbox.individual()\<close>, which wraps a
  fresh \<open>toolbox.attribute_float()\<close> into an Individual.
\<close>

primrec toolbox_population :: "('m, 'r) deap \<Rightarrow> nat \<Rightarrow> 'r \<Rightarrow> 'm individual_scheme list \<times> 'r" where
  "toolbox_population lib 0 r = ([], r)"
| "toolbox_population lib (Suc n) r =
     (let (attributes, r1) =
            initialization_uniform lib attribute_bound_lower attribute_bound_upper
              number_of_attributes r;
          (rest, r2) = toolbox_population lib n r1
      in (Individual lib attributes # rest, r2))"

text \<open>
  The two statements that evaluate a list of individuals: \<open>toolbox.map\<close> of the
  evaluation function, then the assignment of each result to its individual's fitness.
\<close>

fun evaluate_individuals ::
  "(real list \<Rightarrow> py_error + real list) \<Rightarrow> 'm individual_scheme list
     \<Rightarrow> py_error + 'm individual_scheme list" where
  "evaluate_individuals ev [] = Inr []"
| "evaluate_individuals ev (ind # inds) =
     and_then (ev (genes ind)) (\<lambda>fit.
     and_then (evaluate_individuals ev inds) (\<lambda>rest.
     Inr (ind\<lparr>fitness_values := fit\<rparr> # rest)))"

text \<open>\<open>toolbox.clone\<close> is a deep copy: an equal value that shares nothing.\<close>

definition clone :: "'a \<Rightarrow> 'a" where
  "clone ind = ind"

section \<open>The variation loop\<close>

text \<open>
  The offspring are objects that the operators change in place. An object is named by
  its position in the list \<open>offspring\<close>; the slices \<open>offspring[::2]\<close> and
  \<open>offspring[1::2]\<close> are lists of such positions, and \<open>zip\<close> pairs them.
  \<open>calls\<close> records the operator calls the loop has made, each with the positions of
  its arguments.
\<close>

datatype operator_call = Mate nat nat | Mutate nat

record ('m, 'r) variation_state =
  offspring :: "'m individual_scheme list"
  vrng :: 'r
  calls :: "operator_call list"

text \<open>The positions of the objects a call was given.\<close>

fun positions :: "operator_call \<Rightarrow> nat set" where
  "positions (Mate i j) = {i, j}"
| "positions (Mutate i) = {i}"

fun every_second :: "'a list \<Rightarrow> 'a list" where
  "every_second [] = []"
| "every_second [x] = [x]"
| "every_second (x # y # xs) = x # every_second xs"

definition mating_pairs :: "nat \<Rightarrow> (nat \<times> nat) list" where
  "mating_pairs n = zip (every_second [0..<n]) (every_second (drop 1 [0..<n]))"

definition crossover_step ::
  "('m, 'r) deap \<Rightarrow> toolbox \<Rightarrow> real \<Rightarrow> nat \<Rightarrow> nat \<Rightarrow> ('m, 'r) variation_state
     \<Rightarrow> py_error + ('m, 'r) variation_state" where
  "crossover_step lib tb crossover_probability i j s =
     (let (u, r1) = py_random lib (vrng s) in
      if u \<le> crossover_probability then
        and_then (call_mate lib (mate tb) (offspring s ! i) (offspring s ! j) r1) (\<lambda>((c1, c2), r2).
        Inr (s\<lparr>offspring := (offspring s)[i := c1, j := c2], vrng := r2,
               calls := calls s @ [Mate i j]\<rparr>))
      else Inr (s\<lparr>vrng := r1\<rparr>))"

definition mutation_step ::
  "('m, 'r) deap \<Rightarrow> toolbox \<Rightarrow> nat \<Rightarrow> ('m, 'r) variation_state
     \<Rightarrow> py_error + ('m, 'r) variation_state" where
  "mutation_step lib tb i s =
     and_then (call_mutate lib (mutate tb) (offspring s ! i) (vrng s)) (\<lambda>(c, r1).
     Inr (s\<lparr>offspring := (offspring s)[i := c], vrng := r1, calls := calls s @ [Mutate i]\<rparr>))"

fun variation ::
  "('m, 'r) deap \<Rightarrow> toolbox \<Rightarrow> real \<Rightarrow> (nat \<times> nat) list \<Rightarrow> ('m, 'r) variation_state
     \<Rightarrow> py_error + ('m, 'r) variation_state" where
  "variation lib tb crossover_probability [] s = Inr s"
| "variation lib tb crossover_probability ((i, j) # pairs) s =
     and_then (crossover_step lib tb crossover_probability i j s) (\<lambda>s1.
     and_then (mutation_step lib tb i s1) (\<lambda>s2.
     and_then (mutation_step lib tb j s2) (\<lambda>s3.
     variation lib tb crossover_probability pairs s3)))"

section \<open>Plotting\<close>

text \<open>
  The figure and its two axes are globals of the notebook: \<open>None\<close> until the
  button handler creates them, which it does before it calls \<open>optimize\<close>. A field
  is True when its global holds the object and False when it is \<open>None\<close>; a method
  call on \<open>None\<close> raises AttributeError. What matplotlib draws is not modelled.
\<close>

record figure_globals =
  main_figure :: bool
  objective_space_subfigure :: bool
  hypervolume_subfigure :: bool

definition method_call :: "bool \<Rightarrow> py_error + unit" where
  "method_call obj = (if obj then Inr () else Inl AttributeError)"

text \<open>\<open>fitness_data\<close>: the fitness values of the individuals, one row each, as an array.\<close>

definition fitness_data :: "'m individual_scheme list \<Rightarrow> real list list" where
  "fitness_data population = map fitness_values population"

text \<open>
  \<open>data[:, c]\<close> on the array built from the rows. Rows of one length \<open>m\<close> make a
  two-dimensional array, which has the column \<open>c\<close> when \<open>c < m\<close>. No rows at all,
  or rows of different lengths, make a one-dimensional array, and the index with two
  positions raises IndexError.
\<close>

definition column :: "real list list \<Rightarrow> nat \<Rightarrow> py_error + real list" where
  "column data c =
     (if data \<noteq> [] \<and> list_all (\<lambda>row. length row = length (hd data)) data \<and> c < length (hd data)
      then Inr (map (\<lambda>row. row ! c) data)
      else Inl IndexError)"

text \<open>\<open>plot_data\<close>: \<open>plot.plot(data[:,0], data[:,1], ...)\<close>.\<close>

definition plot_data :: "bool \<Rightarrow> real list list \<Rightarrow> py_error + unit" where
  "plot_data plot data =
     and_then (method_call plot) (\<lambda>_.
     and_then (column data 0) (\<lambda>xs.
     and_then (column data 1) (\<lambda>ys.
     Inr ())))"

section \<open>The main function \<open>optimize\<close>\<close>

text \<open>
  The local variables of \<open>optimize\<close> that live across generations.
  \<open>hypervolume_value\<close> is first assigned inside the loop: until then the name is
  unbound (\<open>None\<close>).
\<close>

record ('m, 'r) driver_state =
  population :: "'m individual_scheme list"
  rng :: 'r
  hypervolume_history :: "(real \<times> real) list"
  hypervolume_value :: "real option"

text \<open>
  The body of the loop, statement by statement. Of the plotting statements those that can
  raise are kept, in their order: the two \<open>clear()\<close> calls, the three \<open>plot_data\<close>
  calls and \<open>main_figure.canvas.draw()\<close>.
\<close>

definition generation_step ::
  "('m, 'r) deap \<Rightarrow> toolbox \<Rightarrow> figure_globals \<Rightarrow> int \<Rightarrow> real \<Rightarrow> int \<Rightarrow> ('m, 'r) driver_state
     \<Rightarrow> py_error + ('m, 'r) driver_state" where
  "generation_step lib tb figs population_size crossover_probability generation st =
     and_then (selTournamentDCD lib (population st) (int (length (population st))) (rng st))
       (\<lambda>(pool, r1).
     and_then (variation lib tb crossover_probability (mating_pairs (length pool))
                 \<lparr>offspring = map clone pool, vrng = r1, calls = []\<rparr>) (\<lambda>vs.
     and_then (evaluate_individuals (evaluate tb) (offspring vs)) (\<lambda>evaluated.
     and_then (selNSGA2 lib (population st @ evaluated) population_size) (\<lambda>selected.
     and_then (sortNondominated lib selected (int (length selected))) (\<lambda>fronts.
     and_then (py_index fronts 0) (\<lambda>nondominated_individuals.
     and_then (method_call (hypervolume_subfigure figs)) (\<lambda>_.
     and_then (method_call (objective_space_subfigure figs)) (\<lambda>_.
     and_then (hypervolume lib selected reference_point) (\<lambda>hv.
       let history = hypervolume_history st @ [(of_int generation, hv)] in
     and_then (plot_data (hypervolume_subfigure figs) (map (\<lambda>(g, v). [g, v]) history)) (\<lambda>_.
     and_then (plot_data (objective_space_subfigure figs) (fitness_data selected)) (\<lambda>_.
     and_then (plot_data (objective_space_subfigure figs)
                 (fitness_data nondominated_individuals)) (\<lambda>_.
     and_then (method_call (main_figure figs)) (\<lambda>_.
     Inr (st\<lparr>population := selected, rng := vrng vs,
              hypervolume_history := history,
              hypervolume_value := Some hv\<rparr>))))))))))))))"

fun generations ::
  "('m, 'r) deap \<Rightarrow> toolbox \<Rightarrow> figure_globals \<Rightarrow> int \<Rightarrow> real \<Rightarrow> int list
     \<Rightarrow> ('m, 'r) driver_state \<Rightarrow> py_error + ('m, 'r) driver_state" where
  "generations lib tb figs population_size crossover_probability [] st = Inr st"
| "generations lib tb figs population_size crossover_probability (generation # rest) st =
     and_then (generation_step lib tb figs population_size crossover_probability generation st)
       (generations lib tb figs population_size crossover_probability rest)"

text \<open>
  \<open>optimize_state\<close> is \<open>optimize\<close> up to its last statement: the state the
  \<open>return\<close> finds. \<open>range(1, number_of_generations)\<close> is the list
  \<open>[1..number_of_generations - 1]\<close>. The toolbox and the figures are the globals, as
  the call finds them.
\<close>

definition optimize_state ::
  "('m, 'r) deap \<Rightarrow> toolbox \<Rightarrow> figure_globals \<Rightarrow> int \<Rightarrow> int \<Rightarrow> real \<Rightarrow> real \<Rightarrow> 'r
     \<Rightarrow> py_error + ('m, 'r) driver_state" where
  "optimize_state lib toolbox0 figs population_size number_of_generations crossover_probability
       mutation_probability r =
     (let tb = toolbox0\<lparr>mutate := setattr (mutate toolbox0) ''indpb'' mutation_probability\<rparr>;
          (created, r1) = toolbox_population lib (nat population_size) r
      in
      and_then (evaluate_individuals (evaluate tb) created) (\<lambda>evaluated.
      and_then (selNSGA2 lib evaluated (int (length evaluated))) (\<lambda>selected.
      generations lib tb figs population_size crossover_probability
        [1..number_of_generations - 1]
        \<lparr>population = selected, rng = r1, hypervolume_history = [(0, 0)],
         hypervolume_value = None\<rparr>)))"

definition optimize ::
  "('m, 'r) deap \<Rightarrow> toolbox \<Rightarrow> figure_globals \<Rightarrow> int \<Rightarrow> int \<Rightarrow> real \<Rightarrow> real \<Rightarrow> 'r
     \<Rightarrow> py_error + real" where
  "optimize lib toolbox0 figs population_size number_of_generations crossover_probability
       mutation_probability r =
     and_then (optimize_state lib toolbox0 figs population_size number_of_generations
                 crossover_probability mutation_probability r) (\<lambda>st.
     case hypervolume_value st of
       None \<Rightarrow> Inl UnboundLocalError
     | Some v \<Rightarrow> Inr v)"

section \<open>Exceptions by origin, and what selection works with\<close>

text \<open>
  The exceptions a collaborator can raise on some call, and those the statements of
  \<open>optimize\<close> raise themselves: the unbound result, the index into an empty list of
  fronts or into a one-dimensional array, a call of a registered operator that lacks a
  keyword, a method call on a figure that is \<open>None\<close>.
\<close>

definition collaborator_errors :: "('m, 'r) deap \<Rightarrow> toolbox \<Rightarrow> py_error set" where
  "collaborator_errors lib tb =
     {e. (\<exists>x. evaluate tb x = Inl e)
       \<or> (\<exists>inds k. selNSGA2 lib inds k = Inl e)
       \<or> (\<exists>inds k r. selTournamentDCD lib inds k r = Inl e)
       \<or> (\<exists>ind1 ind2 eta low up r. cxSimulatedBinaryBounded lib ind1 ind2 eta low up r = Inl e)
       \<or> (\<exists>ind eta low up indpb r. mutPolynomialBounded lib ind eta low up indpb r = Inl e)
       \<or> (\<exists>inds k. sortNondominated lib inds k = Inl e)
       \<or> (\<exists>inds ref. hypervolume lib inds ref = Inl e)}"

definition own_errors :: "py_error set" where
  "own_errors = {UnboundLocalError, IndexError, TypeError, AttributeError}"

text \<open>What selection works with: the population and the state of the random generator.\<close>

definition selection_view :: "('m, 'r) driver_state \<Rightarrow> 'm individual_scheme list \<times> 'r" where
  "selection_view st = (population st, rng st)"

section \<open>What the notebook relies on in DEAP\<close>

text \<open>
  Three facts about the two selection operators, as DEAP implements them.
  \<open>selNSGA2(individuals, k)\<close> returns \<open>k\<close> individuals, or all of them when there
  are fewer. \<open>selTournamentDCD(individuals, len(individuals))\<close> runs its tournaments
  on four individuals at a time: it returns as many individuals as it was given, and it
  raises unless their number is a multiple of four (ValueError since DEAP 1.3, an
  IndexError at the same call before).
\<close>

definition selection_returns_k :: "('m, 'r) deap \<Rightarrow> bool" where
  "selection_returns_k lib \<longleftrightarrow>
     (\<forall>inds k selected. selNSGA2 lib inds k = Inr selected
        \<longrightarrow> length selected = min (nat k) (length inds))"




section \<open>A small instance of the collaborators\<close>

text \<open>
  Operators simple enough to run by hand, for the concrete runs below. The generator is
  the list of the numbers it will draw (0 when the list is used up). The tournament has
  the guards of DEAP's and keeps the first \<open>k\<close> individuals; the selection keeps the
  last \<open>k\<close>, last first; the sort puts all individuals into one front, and returns no
  front for \<open>k = 0\<close>, as DEAP's does. The crossover exchanges the genes of its
  arguments; the mutation sets every gene to the \<open>indpb\<close> it was called with; the
  hypervolume is the sum of all genes.
\<close>

definition list_random :: "real list \<Rightarrow> real \<times> real list" where
  "list_random r = (case r of [] \<Rightarrow> (0, []) | u # us \<Rightarrow> (u, us))"

definition small_deap :: "(unit, real list) deap" where
  "small_deap =
     \<lparr>py_random = list_random,
      Individual = (\<lambda>attributes. \<lparr>genes = attributes, fitness_values = []\<rparr>),
      selNSGA2 = (\<lambda>individuals k. Inr (take (nat k) (rev individuals))),
      selTournamentDCD =
        (\<lambda>individuals k r.
           if int (length individuals) < k then Inl ValueError
           else if k = int (length individuals) \<and> k mod 4 \<noteq> 0 then Inl ValueError
           else Inr (take (nat k) individuals, r)),
      cxSimulatedBinaryBounded =
        (\<lambda>ind1 ind2 eta low up r. Inr ((ind1\<lparr>genes := genes ind2\<rparr>, ind2\<lparr>genes := genes ind1\<rparr>), r)),
      mutPolynomialBounded =
        (\<lambda>ind eta low up indpb r. Inr (ind\<lparr>genes := map (\<lambda>g. indpb) (genes ind)\<rparr>, r)),
      sortNondominated = (\<lambda>individuals k. if k = 0 then Inr [] else Inr [individuals]),
      hypervolume = (\<lambda>individuals ref. Inr (sum_list (concat (map genes individuals))))\<rparr>"

text \<open>The toolbox of the notebook with an evaluation that returns its first two genes.\<close>

definition small_toolbox :: toolbox where
  "small_toolbox =
     \<lparr>evaluate = (\<lambda>x. Inr (take 2 x)), mate = registered_mate, mutate = registered_mutate\<rparr>"

text \<open>The figure globals as the button handler leaves them.\<close>

definition figures_shown :: figure_globals where
  "figures_shown =
     \<lparr>main_figure = True, objective_space_subfigure = True, hypervolume_subfigure = True\<rparr>"

text \<open>
  Random draws for a run with four individuals: sixteen for the genes of the initial
  population, two for the crossover tests of the first generation.
\<close>

definition small_draws :: "real list" where
  "small_draws =
     [1/2, 1/2, 1/2, 1/2,  1/4, 1/4, 1/4, 1/4,  0, 0, 0, 0,  3/4, 3/4, 3/4, 3/4,  0, 19/20]"

definition two_individuals :: "individual list" where
  "two_individuals =
     [\<lparr>genes = [0, 0, 0, 0], fitness_values = [0, 0]\<rparr>,
      \<lparr>genes = [1, 1, 1, 1], fitness_values = [1, 1]\<rparr>]"


section \<open>Properties of the evaluation function\<close>

lemma and_then_Inr [simp]: "and_then (Inr v) f = f v"
  by (simp add: and_then_def)

lemma and_then_Inl [simp]: "and_then (Inl e) f = Inl e"
  by (simp add: and_then_def)

lemma and_then_assoc: "and_then (and_then m f) g = and_then m (\<lambda>v. and_then (f v) g)"
  by (cases m) simp_all

lemma penalty_claimed:
  "(let f1 = F1 / 40;
        f2 = F2 / 0.006;
        g1 = G1; g2 = G2; g3 = G3;
        penalty = max (0.000001 * g1) 0 + max (0.000001 * g2) 0 + max (0.0000001 * g3) 0;
        penalty = (if penalty > 0 then penalty + 0.5 else penalty);
        f1 = f1 + penalty;
        f2 = f2 + penalty
    in [py_tanh f1, py_tanh f2]) = claimed_fitness (F1, F2, G1, G2, G3)"
proof -
  have m: "max (w * g) 0 = w * max g 0" if "0 \<le> w" for w g :: real
    using that by (simp add: max_def mult_le_0_iff zero_le_mult_iff)
  have m1: "max (0.000001 * g) 0 = 0.000001 * max g 0" for g :: real
    by (rule m) simp
  have m2: "max (0.0000001 * g) 0 = 0.0000001 * max g 0" for g :: real
    by (rule m) simp
  show ?thesis
    unfolding claimed_fitness_def positive_part_def Let_def m1 m2 by simp
qed

lemma beam_fitness_claimed:
  "beam_fitness b h l t = and_then (raw_terms b h l t) (\<lambda>r. Inr (claimed_fitness r))"
  unfolding beam_fitness_def raw_terms_def and_then_assoc and_then_Inr
  apply (subst penalty_claimed [symmetric])
  apply (simp only: Let_def)
  done


lemma raw_terms_positive:
  assumes b: "0 < b" and h: "0 < h" and l: "0 < l" and t: "0 < t"
  shows "\<exists>f1 f2 g1 g3. raw_terms b h l t = Inr (f1, f2, g1, 504000 / (t * t * b) - 30000, g3)
           \<and> 0 < f1 \<and> 0 < f2"
proof -
  define A where "A = 0.25 * (l * l + (h + t) * (h + t))"
  define D where "D = 1.414 * h * l * (l * l / 12 + 0.25 * (h + t) * (h + t))"
  define tau1 where "tau1 = 6000 / (sqrt 2 * h * l)"
  define tau2 where "tau2 = 6000 * (14 + 0.5 * l) * sqrt A / D"
  define q where "q = l * tau1 * tau2 / sqrt A"
  have ll: "0 < l * l" using l by simp
  have ht: "0 < (h + t) * (h + t)" using h t by simp
  have A: "0 < A" unfolding A_def using ll ht by simp
  have inner: "0 < l * l / 12 + 0.25 * (h + t) * (h + t)"
    using ll ht by (simp add: add_pos_pos)
  have D: "0 < D" unfolding D_def using h l inner by (simp add: mult_pos_pos)
  have tau1: "0 < tau1" unfolding tau1_def using h l by simp
  have tau2: "0 < tau2" unfolding tau2_def using l A D by simp
  have q: "0 < q" unfolding q_def using l tau1 tau2 A by simp
  have e1: "py_div 504000 (t * t * b) = Inr (504000 / (t * t * b))"
    using b t by (simp add: py_div_def)
  have e2: "py_sqrt 2 = Inr (sqrt 2)"
    by (simp add: py_sqrt_def)
  have e3: "py_div 6000 (sqrt 2 * h * l) = Inr tau1"
    using h l by (simp add: py_div_def tau1_def)
  have e4: "py_sqrt A = Inr (sqrt A)"
    using A by (simp add: py_sqrt_def)
  have e5: "py_div (6000 * (14 + 0.5 * l) * sqrt A) D = Inr tau2"
    using D by (simp add: py_div_def tau2_def)
  have e6: "py_div (l * tau1 * tau2) (sqrt A) = Inr q"
    using A by (simp add: py_div_def q_def)
  have e7: "py_sqrt (tau1 * tau1 + tau2 * tau2 + q) = Inr (sqrt (tau1 * tau1 + tau2 * tau2 + q))"
    using q by (simp add: py_sqrt_def not_less add_nonneg_nonneg)
  have e8: "py_div 2.1952 (t * t * t * b) = Inr (2.1952 / (t * t * t * b))"
    using b t by (simp add: py_div_def)
  have f1: "0 < 1.10471 * h * h * l + 0.04811 * t * b * (14 + l)"
    using b h l t by (simp add: add_pos_pos)
  have f2: "0 < 2.1952 / (t * t * t * b)"
    using b t by simp
  have "raw_terms b h l t =
      Inr (1.10471 * h * h * l + 0.04811 * t * b * (14 + l), 2.1952 / (t * t * t * b),
           sqrt (tau1 * tau1 + tau2 * tau2 + q) - 13600, 504000 / (t * t * b) - 30000,
           6000 - 64746.022 * (1 - 0.0282346 * t) * t * b * b * b)"
    unfolding raw_terms_def A_def [symmetric] D_def [symmetric]
    by (simp only: e1 e2 e3 e4 e5 e6 e7 e8 and_then_Inr)
  with f1 f2 show ?thesis by blast
qed


lemma exp_ge_power_of_two: "2 ^ n \<le> exp (real n)"
proof -
  have "(2::real) \<le> exp 1"
    using exp_ge_add_one_self [of 1] by simp
  then have "(2::real) ^ n \<le> exp 1 ^ n"
    by (rule power_mono) simp
  also have "\<dots> = exp (real n)"
    by (simp add: exp_of_nat_mult [symmetric])
  finally show ?thesis .
qed

lemma py_tanh_saturated:
  assumes "28 \<le> x"
  shows "py_tanh x = 1"
proof -
  define u where "u = exp (- 2 * x)"
  have "(2::real) ^ 56 \<le> exp (real 56)"
    by (rule exp_ge_power_of_two)
  also have "\<dots> \<le> exp (2 * x)"
    using assms by simp
  finally have big: "(2::real) ^ 56 \<le> exp (2 * x)" .
  have pos: "0 < u"
    by (simp add: u_def)
  have "u = 1 / exp (2 * x)"
    by (simp add: u_def exp_minus inverse_eq_divide)
  also have "\<dots> \<le> 1 / 2 ^ 56"
    using big by (simp add: frac_le)
  finally have small: "u \<le> 1 / 2 ^ 56" .
  have "tanh x = (1 - u) / (1 + u)"
    unfolding u_def by (rule tanh_real_altdef)
  then have "1 - tanh x = 2 * u / (1 + u)"
    using pos by (simp add: field_simps)
  also have "\<dots> \<le> 2 * u / 1"
    using pos by (intro divide_left_mono) simp_all
  also have "\<dots> \<le> 2 * (1 / 2 ^ 56)"
    using small by simp
  also have "\<dots> \<le> 1 / 2 ^ 54"
    by simp
  finally have "1 - tanh x \<le> 1 / 2 ^ 54" .
  then show ?thesis
    by (simp only: py_tanh_def if_True)
qed

lemma py_tanh_positive:
  assumes "0 < x"
  shows "0 < py_tanh x" and "py_tanh x \<le> 1"
proof -
  have t: "0 < tanh x" "tanh x < 1"
    using assms by (simp_all add: tanh_real_lt_1)
  have "(1::real) / 2 ^ 54 \<le> 1"
    by simp
  with t have n: "\<not> 1 + tanh x \<le> 1 / 2 ^ 54"
    by linarith
  have p: "py_tanh x = (if 1 - tanh x \<le> 1 / 2 ^ 54 then 1 else tanh x)"
    by (simp only: py_tanh_def n if_False)
  show "0 < py_tanh x"
    unfolding p using t by (cases "1 - tanh x \<le> 1 / 2 ^ 54") (simp_all only: if_True if_False zero_less_one)
  show "py_tanh x \<le> 1"
    unfolding p using t by (cases "1 - tanh x \<le> 1 / 2 ^ 54") (simp_all only: if_True if_False order_refl less_imp_le)
qed

lemma problem_encoding_domain:
  assumes len: "length x = 4" and dom: "set x \<subseteq> {0..1}"
  shows "\<exists>b h l t. problem_encoding x = Inr (b, h, l, t) \<and> 0 < b \<and> 0 < h \<and> 0 < l \<and> 0 < t"
proof -
  have g: "0 \<le> x ! i \<and> x ! i \<le> 1" if "i < 4" for i
  proof -
    have "x ! i \<in> set x" using that len by simp
    with dom show ?thesis by auto
  qed
  have g0: "0 \<le> x ! 0" and g1: "0 \<le> x ! 1" and g2: "0 \<le> x ! 2" and g3: "0 \<le> x ! 3"
    using g [of 0] g [of 1] g [of 2] g [of 3] by simp_all
  have b: "0 < 0.125 + 4.875 * x ! 0"
    using g0 by (simp add: add_pos_nonneg)
  have "0 \<le> 4.875 * x ! 0 * x ! 1"
    using g0 g1 by simp
  then have h: "0 < 0.125 + (0.125 + 4.875 * x ! 0 - 0.125) * x ! 1"
    by (simp add: add_pos_nonneg)
  have l: "0 < 0.1 + 9.9 * x ! 2"
    using g2 by (simp add: add_pos_nonneg)
  have t: "0 < 0.1 + 9.9 * x ! 3"
    using g3 by (simp add: add_pos_nonneg)
  have "problem_encoding x =
      Inr (0.125 + 4.875 * x ! 0, 0.125 + (0.125 + 4.875 * x ! 0 - 0.125) * x ! 1,
           0.1 + 9.9 * x ! 2, 0.1 + 9.9 * x ! 3)"
    unfolding problem_encoding_def py_index_def Let_def using len
    by (simp only: and_then_Inr) simp
  with b h l t show ?thesis by blast
qed

lemma claimed_fitness_range:
  assumes "0 < f1" and "0 < f2"
  shows "\<exists>y1 y2. claimed_fitness (f1, f2, g1, g2, g3) = [y1, y2]
           \<and> 0 < y1 \<and> y1 \<le> 1 \<and> 0 < y2 \<and> y2 \<le> 1"
proof -
  define violation where
    "violation = 0.000001 * positive_part g1 + 0.000001 * positive_part g2
                        + 0.0000001 * positive_part g3"
  define penalty where "penalty = (if 0 < violation then violation + 0.5 else violation)"
  have "0 \<le> violation"
    unfolding violation_def positive_part_def by simp
  then have p: "0 \<le> penalty"
    unfolding penalty_def by simp
  have c: "claimed_fitness (f1, f2, g1, g2, g3)
      = [py_tanh (f1 / 40 + penalty), py_tanh (f2 / 0.006 + penalty)]"
    unfolding claimed_fitness_def penalty_def violation_def by (simp add: Let_def)
  have "0 < f1 / 40 + penalty" and "0 < f2 / 0.006 + penalty"
    using assms p by (simp_all add: add_pos_nonneg)
  then show ?thesis
    unfolding c using py_tanh_positive by blast
qed

lemma claimed_fitness_saturated:
  assumes "0 < f1" and "0 < f2" and "30000000 \<le> g2"
  shows "claimed_fitness (f1, f2, g1, g2, g3) = [1, 1]"
proof -
  define violation where
    "violation = 0.000001 * positive_part g1 + 0.000001 * positive_part g2
                        + 0.0000001 * positive_part g3"
  define penalty where "penalty = (if 0 < violation then violation + 0.5 else violation)"
  have "0.000001 * positive_part g2 \<le> violation"
    unfolding violation_def positive_part_def by simp
  moreover have "30 \<le> 0.000001 * positive_part g2"
    using assms(3) unfolding positive_part_def by simp
  ultimately have "30 \<le> violation"
    by simp
  then have p: "30 \<le> penalty"
    unfolding penalty_def by simp
  have c: "claimed_fitness (f1, f2, g1, g2, g3)
      = [py_tanh (f1 / 40 + penalty), py_tanh (f2 / 0.006 + penalty)]"
    unfolding claimed_fitness_def penalty_def violation_def by (simp add: Let_def)
  have "28 \<le> f1 / 40 + penalty" and "28 \<le> f2 / 0.006 + penalty"
    using assms(1,2) p by (simp_all add: add_nonneg_nonneg le_add_same_cancel2 add_increasing)
  then show ?thesis
    unfolding c by (simp add: py_tanh_saturated)
qed

lemma welded_beam_design_claimed:
  assumes len: "length x = 4" and dom: "set x \<subseteq> {0..1}"
  shows "\<exists>b h l t f1 f2 g1 g3.
           problem_encoding x = Inr (b, h, l, t) \<and> 0 < f1 \<and> 0 < f2
           \<and> welded_beam_design x
               = Inr (claimed_fitness (f1, f2, g1, 504000 / (t * t * b) - 30000, g3))"
proof -
  obtain b h l t where enc: "problem_encoding x = Inr (b, h, l, t)"
    and pos: "0 < b" "0 < h" "0 < l" "0 < t"
    using problem_encoding_domain [OF len dom] by blast
  obtain f1 f2 g1 g3 where
    raw: "raw_terms b h l t = Inr (f1, f2, g1, 504000 / (t * t * b) - 30000, g3)"
    and f: "0 < f1" "0 < f2"
    using raw_terms_positive [OF pos] by blast
  have "welded_beam_design x = Inr (claimed_fitness (f1, f2, g1, 504000 / (t * t * b) - 30000, g3))"
    by (simp add: welded_beam_design_def enc beam_fitness_claimed raw)
  with enc f show ?thesis by blast
qed

lemma welded_beam_design_domain:
  assumes len: "length x = 4" and dom: "set x \<subseteq> {0..1}"
  shows "\<exists>y1 y2. welded_beam_design x = Inr [y1, y2] \<and> 0 < y1 \<and> y1 \<le> 1 \<and> 0 < y2 \<and> y2 \<le> 1"
proof -
  obtain b h l t f1 f2 g1 g3 where f: "0 < f1" "0 < f2"
    and w: "welded_beam_design x
              = Inr (claimed_fitness (f1, f2, g1, 504000 / (t * t * b) - 30000, g3))"
    using welded_beam_design_claimed [OF len dom] by blast
  show ?thesis
    unfolding w using claimed_fitness_range [OF f] by simp
qed

lemma problem_encoding_origin:
  "problem_encoding [0, 0, 0, 0] = Inr (0.125, 0.125, 0.1, 0.1)"
  by (simp add: problem_encoding_def py_index_def)

text \<open>
  C5. The evaluation function is total on its domain: for every gene vector with four
  components, all in \<open>[0, 1]\<close>, \<open>welded_beam_design\<close> raises nothing (no
  division by zero, no square root of a negative number) and returns a vector of two
  numbers.
\<close>

theorem welded_beam_design_total:
  "length x = 4 \<Longrightarrow> set x \<subseteq> {0..1} \<Longrightarrow> \<exists>y1 y2. welded_beam_design x = Inr [y1, y2]"
  using welded_beam_design_domain by blast

theorem welded_beam_design_total_witness:
  "length [0, 1/2, 1, 1/4 :: real] = 4 \<and> set [0, 1/2, 1, 1/4 :: real] \<subseteq> {0..1}
   \<and> (\<exists>y1 y2. welded_beam_design [0, 1/2, 1, 1/4] = Inr [y1, y2])"
  using welded_beam_design_total [of "[0, 1/2, 1, 1/4]"] by simp

text \<open>
  C6. \<open>welded_beam_design\<close> is its raw objectives and constraints followed by the
  steps the specification lists: the objectives divided by 40 and by 0.006, the weighted
  sum of the constraints' positive parts as penalty, 0.5 added to the penalty exactly when
  the sum is strictly positive, the penalty added to both objectives, and \<open>math.tanh\<close>
  of each returned. The equation holds for every input, the failing ones included.
\<close>

theorem welded_beam_design_structure:
  "welded_beam_design x =
     and_then (problem_encoding x) (\<lambda>(b, h, l, t).
       and_then (raw_terms b h l t) (\<lambda>r. Inr (claimed_fitness r)))"
  by (simp add: welded_beam_design_def beam_fitness_claimed)

text \<open>
  C9, as amended. For every gene vector with four components, all in \<open>[0, 1]\<close>,
  both components of the returned value are strictly positive and at most 1: the scaled
  objectives are strictly positive, the penalty is not negative, and \<open>math.tanh\<close> of
  a positive number lies in \<open>(0, 1]\<close>.
\<close>

theorem welded_beam_design_range:
  "length x = 4 \<Longrightarrow> set x \<subseteq> {0..1} \<Longrightarrow>
     \<exists>y1 y2. welded_beam_design x = Inr [y1, y2] \<and> 0 < y1 \<and> y1 \<le> 1 \<and> 0 < y2 \<and> y2 \<le> 1"
  by (rule welded_beam_design_domain)

theorem welded_beam_design_range_witness:
  "length [1, 1, 1, 1 :: real] = 4 \<and> set [1, 1, 1, 1 :: real] \<subseteq> {0..1}
   \<and> (\<exists>y1 y2. welded_beam_design [1, 1, 1, 1] = Inr [y1, y2]
         \<and> 0 < y1 \<and> y1 \<le> 1 \<and> 0 < y2 \<and> y2 \<le> 1)"
  using welded_beam_design_range [of "[1, 1, 1, 1]"] by simp

text \<open>
  C9, as stated, fails: the bound below 1 is not strict. At the gene vector
  \<open>[0, 0, 0, 0]\<close> the bending stress is \<open>504000 / (0.1 * 0.1 * 0.125)\<close>, its
  constraint alone puts the penalty above 403, and \<open>math.tanh\<close> of both penalised
  objectives is exactly 1.0.
\<close>

theorem welded_beam_design_reaches_one:
  "welded_beam_design [0, 0, 0, 0] = Inr [1, 1]"
proof -
  obtain b h l t f1 f2 g1 g3 where enc: "problem_encoding [0, 0, 0, 0] = Inr (b, h, l, t)"
    and f: "0 < f1" "0 < f2"
    and w: "welded_beam_design [0, 0, 0, 0]
              = Inr (claimed_fitness (f1, f2, g1, 504000 / (t * t * b) - 30000, g3))"
    using welded_beam_design_claimed [of "[0, 0, 0, 0]"] by auto
  from enc have b: "b = 0.125" and t: "t = 0.1"
    by (simp_all add: problem_encoding_origin)
  have "(30000000::real) \<le> 504000 / (0.1 * 0.1 * 0.125) - 30000"
    by simp
  then have "(30000000::real) \<le> 504000 / (t * t * b) - 30000"
    unfolding b t .
  from claimed_fitness_saturated [OF f this] show ?thesis
    unfolding w by simp
qed

section \<open>Properties of the variation loop\<close>

lemma and_then_Inr_iff:
  "and_then m f = Inr y \<longleftrightarrow> (\<exists>v. m = Inr v \<and> f v = Inr y)"
  by (cases m) simp_all

lemma and_then_Inl_iff:
  "and_then m f = Inl e \<longleftrightarrow> m = Inl e \<or> (\<exists>v. m = Inr v \<and> f v = Inl e)"
  by (cases m) simp_all

lemma crossover_step_Inr:
  assumes "crossover_step lib tb cx i j s = Inr s1"
  shows "length (offspring s1) = length (offspring s)"
    and "k \<noteq> i \<Longrightarrow> k \<noteq> j \<Longrightarrow> offspring s1 ! k = offspring s ! k"
    and "count_list (calls s1) (Mutate k) = count_list (calls s) (Mutate k)"
    and "set (calls s1) \<subseteq> set (calls s) \<union> {Mate i j}"
  using assms
  by (auto simp: crossover_step_def and_then_Inr_iff split: prod.splits if_splits)

lemma mutation_step_Inr:
  assumes "mutation_step lib tb i s = Inr s1"
  shows "length (offspring s1) = length (offspring s)"
    and "k \<noteq> i \<Longrightarrow> offspring s1 ! k = offspring s ! k"
    and "count_list (calls s1) (Mutate k) = count_list (calls s) (Mutate k) + (if k = i then 1 else 0)"
    and "set (calls s1) = set (calls s) \<union> {Mutate i}"
  using assms
  by (auto simp: mutation_step_def and_then_Inr_iff split: prod.splits if_splits)

lemma variation_Cons_Inr:
  assumes "variation lib tb cx ((i, j) # pairs) s = Inr s'"
  obtains s1 s2 s3 where "crossover_step lib tb cx i j s = Inr s1"
    and "mutation_step lib tb i s1 = Inr s2"
    and "mutation_step lib tb j s2 = Inr s3"
    and "variation lib tb cx pairs s3 = Inr s'"
  using assms by (auto simp: and_then_Inr_iff)

lemma variation_length:
  "variation lib tb cx pairs s = Inr s' \<Longrightarrow> length (offspring s') = length (offspring s)"
proof (induction pairs arbitrary: s)
  case Nil
  then show ?case by simp
next
  case (Cons p pairs)
  obtain i j where p: "p = (i, j)" by (cases p)
  from Cons.prems obtain s1 s2 s3 where
    a: "crossover_step lib tb cx i j s = Inr s1" and
    b: "mutation_step lib tb i s1 = Inr s2" and
    c: "mutation_step lib tb j s2 = Inr s3" and
    d: "variation lib tb cx pairs s3 = Inr s'"
    unfolding p by (rule variation_Cons_Inr)
  show ?case
    using Cons.IH [OF d] crossover_step_Inr(1) [OF a] mutation_step_Inr(1) [OF b]
      mutation_step_Inr(1) [OF c] by simp
qed

lemma variation_untouched:
  "variation lib tb cx pairs s = Inr s' \<Longrightarrow> k \<notin> fst ` set pairs \<Longrightarrow> k \<notin> snd ` set pairs
     \<Longrightarrow> offspring s' ! k = offspring s ! k"
proof (induction pairs arbitrary: s)
  case Nil
  then show ?case by simp
next
  case (Cons p pairs)
  obtain i j where p: "p = (i, j)" by (cases p)
  from Cons.prems(1) obtain s1 s2 s3 where
    a: "crossover_step lib tb cx i j s = Inr s1" and
    b: "mutation_step lib tb i s1 = Inr s2" and
    c: "mutation_step lib tb j s2 = Inr s3" and
    d: "variation lib tb cx pairs s3 = Inr s'"
    unfolding p by (rule variation_Cons_Inr)
  from Cons.prems(2,3) have k: "k \<noteq> i" "k \<noteq> j" "k \<notin> fst ` set pairs" "k \<notin> snd ` set pairs"
    by (auto simp: p)
  show ?case
    using Cons.IH [OF d k(3,4)] crossover_step_Inr(2) [OF a k(1,2)]
      mutation_step_Inr(2) [OF b k(1)] mutation_step_Inr(2) [OF c k(2)] by simp
qed


lemma variation_calls:
  "variation lib tb cx pairs s = Inr s' \<Longrightarrow>
     set (calls s') \<subseteq> set (calls s) \<union> (\<Union>(i, j)\<in>set pairs. {Mate i j, Mutate i, Mutate j})"
proof (induction pairs arbitrary: s)
  case Nil
  then show ?case by simp
next
  case (Cons p pairs)
  obtain i j where p: "p = (i, j)" by (cases p)
  from Cons.prems obtain s1 s2 s3 where
    a: "crossover_step lib tb cx i j s = Inr s1" and
    b: "mutation_step lib tb i s1 = Inr s2" and
    c: "mutation_step lib tb j s2 = Inr s3" and
    d: "variation lib tb cx pairs s3 = Inr s'"
    unfolding p by (rule variation_Cons_Inr)
  show ?case
    using Cons.IH [OF d] crossover_step_Inr(4) [OF a]
      mutation_step_Inr(4) [OF b] mutation_step_Inr(4) [OF c]
    by (auto simp: p)
qed

lemma every_second_Cons: "every_second (y # xs) = y # every_second (drop 1 xs)"
  by (cases xs) simp_all

lemma zip_slices_Cons2:
  "zip (every_second (x # y # xs)) (every_second (drop 1 (x # y # xs)))
     = (x, y) # zip (every_second xs) (every_second (drop 1 xs))"
  by (simp add: every_second_Cons)


lemma zip_slices_positions:
  "fst ` set (zip (every_second xs) (every_second (drop 1 xs)))
   \<union> snd ` set (zip (every_second xs) (every_second (drop 1 xs)))
   = (if even (length xs) then set xs else set (butlast xs))"
proof (induction xs rule: every_second.induct)
  case 1
  then show ?case by simp
next
  case (2 x)
  then show ?case by simp
next
  case (3 x y xs)
  show ?case
    unfolding zip_slices_Cons2 using 3 by (cases xs) auto
qed



lemma evaluate_individuals_last:
  "evaluate_individuals ev inds = Inr evaluated \<Longrightarrow> inds \<noteq> [] \<Longrightarrow>
     \<exists>fit. ev (genes (last inds)) = Inr fit \<and> evaluated \<noteq> []
       \<and> last evaluated = (last inds)\<lparr>fitness_values := fit\<rparr>"
proof (induction inds arbitrary: evaluated)
  case Nil
  then show ?case by simp
next
  case (Cons ind inds)
  then show ?case
    by (cases inds) (auto simp: and_then_Inr_iff)
qed







section \<open>Properties of \<open>optimize\<close>\<close>

subsection \<open>The mutation probability\<close>

lemma call_mutate_registered:
  "call_mutate lib (setattr registered_mutate ''indpb'' mutation_probability) ind r
     = mutPolynomialBounded lib ind 20 0 1 (1/10) r"
  by (simp add: call_mutate_def setattr_def registered_mutate_def register_def
      attribute_bound_lower_def attribute_bound_upper_def)

lemma call_mutate_kwargs:
  "kwargs p = kwargs p' \<Longrightarrow> call_mutate lib p = call_mutate lib p'"
  by (intro ext) (simp add: call_mutate_def)

lemma mutation_step_kwargs:
  "kwargs (mutate tb) = kwargs (mutate tb') \<Longrightarrow> mutation_step lib tb = mutation_step lib tb'"
  by (intro ext) (simp add: mutation_step_def call_mutate_kwargs [of "mutate tb" "mutate tb'"])

lemma crossover_step_mate:
  "mate tb = mate tb' \<Longrightarrow> crossover_step lib tb = crossover_step lib tb'"
  by (intro ext) (simp add: crossover_step_def split: prod.splits)

lemma variation_kwargs:
  assumes "kwargs (mutate tb) = kwargs (mutate tb')" and "mate tb = mate tb'"
  shows "variation lib tb cx pairs s = variation lib tb' cx pairs s"
proof (induction pairs arbitrary: s)
  case Nil
  show ?case by simp
next
  case (Cons p pairs)
  obtain i j where p: "p = (i, j)" by (cases p)
  have "variation lib tb cx pairs = variation lib tb' cx pairs"
    by (intro ext) (rule Cons.IH)
  then show ?case
    unfolding p variation.simps mutation_step_kwargs [OF assms(1)] crossover_step_mate [OF assms(2)]
    by simp
qed

lemma generation_step_kwargs:
  assumes "kwargs (mutate tb) = kwargs (mutate tb')" and "mate tb = mate tb'"
    and "evaluate tb = evaluate tb'"
  shows "generation_step lib tb figs n cx g st = generation_step lib tb' figs n cx g st"
  unfolding generation_step_def assms(3)
  by (simp add: variation_kwargs [OF assms(1,2)])

lemma generations_kwargs:
  assumes "kwargs (mutate tb) = kwargs (mutate tb')" and "mate tb = mate tb'"
    and "evaluate tb = evaluate tb'"
  shows "generations lib tb figs n cx gens st = generations lib tb' figs n cx gens st"
proof (induction gens arbitrary: st)
  case Nil
  show ?case by simp
next
  case (Cons g gens)
  have "generations lib tb figs n cx gens = generations lib tb' figs n cx gens"
    by (intro ext) (rule Cons.IH)
  then show ?case
    by (simp add: generation_step_kwargs [OF assms])
qed

lemma optimize_state_ignores_mutation_probability:
  "optimize_state lib tb figs n g cx mp r = optimize_state lib tb figs n g cx mp' r"
proof -
  have "generations lib (tb\<lparr>mutate := setattr (mutate tb) ''indpb'' mp\<rparr>) figs n cx gens st
      = generations lib (tb\<lparr>mutate := setattr (mutate tb) ''indpb'' mp'\<rparr>) figs n cx gens st"
    for gens st
    by (rule generations_kwargs) (simp_all add: setattr_def)
  then show ?thesis
    unfolding optimize_state_def Let_def by simp
qed

text \<open>
  C1. The claim is that the mutation runs with the \<open>mutation_probability\<close> given to
  \<open>optimize\<close>. The code does not do that: \<open>toolbox.mutate.indpb = ...\<close> writes
  an attribute of the partial object, while the call passes the keyword frozen at
  registration. So the result of \<open>optimize\<close> is the same for every
  \<open>mutation_probability\<close>, and the operator is always called with \<open>indpb = 0.1\<close>.
\<close>

theorem mutation_probability_not_used:
  "optimize lib notebook_toolbox figs population_size number_of_generations
      crossover_probability mutation_probability r
   = optimize lib notebook_toolbox figs population_size number_of_generations
      crossover_probability (1/10) r
   \<and> call_mutate lib (setattr (mutate notebook_toolbox) ''indpb'' mutation_probability) ind r'
       = mutPolynomialBounded lib ind 20 0 1 (1/10) r'"
  unfolding optimize_def
    optimize_state_ignores_mutation_probability
      [of lib notebook_toolbox _ _ _ _ mutation_probability _ "1/10"]
  by (simp add: notebook_toolbox_def call_mutate_registered)

subsection \<open>The number of generations\<close>

lemma upto_1_0: "[1..1 - 1] = ([] :: int list)"
  by (simp add: upto.simps)

lemma optimize_state_no_generation:
  "optimize_state lib tb figs n 1 cx mp r = Inr st \<Longrightarrow> hypervolume_value st = None"
  unfolding optimize_state_def Let_def upto_1_0
  by (auto simp: and_then_Inr_iff split: prod.splits)

text \<open>
  C2. The claim is that \<open>optimize\<close> returns a value for every
  \<open>number_of_generations \<ge> 1\<close>. With \<open>number_of_generations = 1\<close> the loop
  \<open>range(1, 1)\<close> does not run, \<open>hypervolume_value\<close> is never assigned, and
  the \<open>return\<close> raises UnboundLocalError: no configuration with one generation
  returns a value.
\<close>

theorem optimize_one_generation_unbound:
  "optimize lib tb figs population_size 1 crossover_probability mutation_probability r =
     (case optimize_state lib tb figs population_size 1 crossover_probability
             mutation_probability r of
        Inl e \<Rightarrow> Inl e
      | Inr st \<Rightarrow> Inl UnboundLocalError)"
  by (auto simp: optimize_def split: sum.splits dest: optimize_state_no_generation)

text \<open>
  From two generations on the loop runs \<open>number_of_generations - 1\<close> times (one row
  of the history each) and the \<open>return\<close> finds its value, when nothing raises
  before.
\<close>

lemma generation_step_binds:
  "generation_step lib tb figs n cx g st = Inr st' \<Longrightarrow>
     hypervolume_value st' \<noteq> None
     \<and> length (hypervolume_history st') = Suc (length (hypervolume_history st))"
  unfolding generation_step_def Let_def
  by (auto simp: and_then_Inr_iff split: prod.splits)

lemma generations_history:
  "generations lib tb figs n cx gens st = Inr st' \<Longrightarrow>
     length (hypervolume_history st') = length (hypervolume_history st) + length gens
     \<and> (gens \<noteq> [] \<longrightarrow> hypervolume_value st' \<noteq> None)"
proof (induction gens arbitrary: st)
  case Nil
  then show ?case by simp
next
  case (Cons g gens)
  from Cons.prems obtain s1 where
    a: "generation_step lib tb figs n cx g st = Inr s1" and
    b: "generations lib tb figs n cx gens s1 = Inr st'"
    by (auto simp: and_then_Inr_iff)
  show ?case
  proof (cases gens)
    case Nil
    with b have "st' = s1" by simp
    with generation_step_binds [OF a] Nil show ?thesis by simp
  next
    case (Cons g' gens')
    with generation_step_binds [OF a] Cons.IH [OF b] show ?thesis by simp
  qed
qed

lemma optimize_returns_after_generations:
  assumes "2 \<le> g" and "optimize_state lib tb figs n g cx mp r = Inr st"
  shows "\<exists>v. optimize lib tb figs n g cx mp r = Inr v \<and> hypervolume_value st = Some v"
    and "length (hypervolume_history st) = 1 + nat (g - 1)"
proof -
  from assms(2) obtain st0 where
    gen: "generations lib (tb\<lparr>mutate := setattr (mutate tb) ''indpb'' mp\<rparr>) figs n cx
            [1..g - 1] st0 = Inr st"
    and h0: "hypervolume_history st0 = [(0, 0)]"
    unfolding optimize_state_def Let_def
    by (auto simp: and_then_Inr_iff split: prod.splits)
  have ne: "[1..g - 1] \<noteq> []"
    using assms(1) by (simp add: upto.simps)
  from generations_history [OF gen] ne h0
  have "hypervolume_value st \<noteq> None" and len: "length (hypervolume_history st) = 1 + nat (g - 1)"
    by simp_all
  then show "\<exists>v. optimize lib tb figs n g cx mp r = Inr v \<and> hypervolume_value st = Some v"
    by (auto simp: optimize_def assms(2))
  show "length (hypervolume_history st) = 1 + nat (g - 1)" by (rule len)
qed

subsection \<open>The crossover probability\<close>

text \<open>
  C3. The claim is that with \<open>crossover_probability = 0\<close> no random draw takes the
  crossover branch. The test is \<open>random.random() <= crossover_probability\<close>, and
  \<open>random.random()\<close> can return 0.0: at that draw the branch is taken and the
  crossover is applied. Here the pair is (genes all 0, genes all 1), the draw is 0, and
  the small crossover operator exchanges the genes.
\<close>

theorem crossover_at_probability_zero:
  "crossover_step small_deap small_toolbox 0 0 1
      \<lparr>offspring = map clone two_individuals, vrng = [0], calls = []\<rparr>
   = Inr \<lparr>offspring = [\<lparr>genes = [1, 1, 1, 1], fitness_values = [0, 0]\<rparr>,
                        \<lparr>genes = [0, 0, 0, 0], fitness_values = [1, 1]\<rparr>],
          vrng = [], calls = [Mate 0 1]\<rparr>"
  by code_simp

text \<open>
  The same with any collaborators; and a draw above the probability leaves the pair as
  it was.
\<close>

lemma crossover_step_draw_zero:
  "py_random lib (vrng s) = (0, r1) \<Longrightarrow>
     crossover_step lib tb 0 i j s =
       and_then (call_mate lib (mate tb) (offspring s ! i) (offspring s ! j) r1) (\<lambda>((c1, c2), r2).
         Inr (s\<lparr>offspring := (offspring s)[i := c1, j := c2], vrng := r2,
                calls := calls s @ [Mate i j]\<rparr>))"
  by (simp add: crossover_step_def)

lemma crossover_step_skipped:
  "py_random lib (vrng s) = (u, r1) \<Longrightarrow> crossover_probability < u \<Longrightarrow>
     crossover_step lib tb crossover_probability i j s = Inr (s\<lparr>vrng := r1\<rparr>)"
  by (simp add: crossover_step_def)

subsection \<open>Validation of the configuration\<close>

lemma evaluate_individuals_Inl:
  "evaluate_individuals (evaluate tb) inds = Inl e \<Longrightarrow> e \<in> collaborator_errors lib tb"
proof (induction inds)
  case Nil
  then show ?case by simp
next
  case (Cons ind inds)
  then show ?case
    by (auto simp: and_then_Inl_iff collaborator_errors_def)
qed

lemma call_mate_Inl:
  "call_mate lib p ind1 ind2 r = Inl e \<Longrightarrow> e = TypeError \<or> e \<in> collaborator_errors lib tb"
  by (auto simp: call_mate_def collaborator_errors_def split: option.splits)

lemma call_mutate_Inl:
  "call_mutate lib p ind r = Inl e \<Longrightarrow> e = TypeError \<or> e \<in> collaborator_errors lib tb"
  by (auto simp: call_mutate_def collaborator_errors_def split: option.splits)

lemma crossover_step_Inl:
  "crossover_step lib tb cx i j s = Inl e \<Longrightarrow> e = TypeError \<or> e \<in> collaborator_errors lib tb"
  by (auto simp: crossover_step_def and_then_Inl_iff split: prod.splits if_splits
      dest: call_mate_Inl [where tb = tb])

lemma mutation_step_Inl:
  "mutation_step lib tb i s = Inl e \<Longrightarrow> e = TypeError \<or> e \<in> collaborator_errors lib tb"
  by (auto simp: mutation_step_def and_then_Inl_iff split: prod.splits
      dest: call_mutate_Inl [where tb = tb])

lemma variation_Inl:
  "variation lib tb cx pairs s = Inl e \<Longrightarrow> e = TypeError \<or> e \<in> collaborator_errors lib tb"
proof (induction pairs arbitrary: s)
  case Nil
  then show ?case by simp
next
  case (Cons p pairs)
  obtain i j where p: "p = (i, j)" by (cases p)
  from Cons.prems show ?case
    unfolding p
    by (auto simp: and_then_Inl_iff dest: crossover_step_Inl mutation_step_Inl Cons.IH)
qed

lemma method_call_Inl: "method_call obj = Inl e \<Longrightarrow> e = AttributeError"
  by (simp add: method_call_def split: if_splits)

lemma plot_data_Inl: "plot_data plot data = Inl e \<Longrightarrow> e = AttributeError \<or> e = IndexError"
  by (auto simp: plot_data_def column_def and_then_Inl_iff dest: method_call_Inl split: if_splits)

lemma generation_step_Inl:
  assumes "generation_step lib tb figs n cx g st = Inl e"
  shows "e \<in> own_errors \<union> collaborator_errors lib tb"
proof -
  have own: "AttributeError \<in> own_errors" "IndexError \<in> own_errors" "TypeError \<in> own_errors"
    by (simp_all add: own_errors_def)
  have lib: "e \<in> collaborator_errors lib tb"
    if "selTournamentDCD lib a b c = Inl e \<or> selNSGA2 lib a' b' = Inl e
        \<or> sortNondominated lib a'' b'' = Inl e \<or> hypervolume lib a''' b''' = Inl e"
    for a b c a' b' a'' b'' a''' b'''
    using that by (auto simp: collaborator_errors_def)
  from assms show ?thesis
    unfolding generation_step_def Let_def
    by (auto simp: and_then_Inl_iff py_index_def own split: prod.splits if_splits
        dest!: variation_Inl evaluate_individuals_Inl [where lib = lib] method_call_Inl
          plot_data_Inl
        intro: lib)
qed

lemma generations_Inl:
  "generations lib tb figs n cx gens st = Inl e \<Longrightarrow> e \<in> own_errors \<union> collaborator_errors lib tb"
proof (induction gens arbitrary: st)
  case Nil
  then show ?case by simp
next
  case (Cons g gens)
  from Cons.prems show ?case
    by (auto simp: and_then_Inl_iff dest: generation_step_Inl Cons.IH)
qed

lemma collaborator_errors_setattr:
  "collaborator_errors lib (tb\<lparr>mutate := m\<rparr>) = collaborator_errors lib tb"
  by (simp add: collaborator_errors_def)

lemma optimize_state_Inl:
  "optimize_state lib tb figs n g cx mp r = Inl e \<Longrightarrow> e \<in> own_errors \<union> collaborator_errors lib tb"
  unfolding optimize_state_def Let_def
  apply (auto simp: and_then_Inl_iff split: prod.splits
      dest!: generations_Inl evaluate_individuals_Inl [where lib = lib])
  apply (auto simp: collaborator_errors_def)
  done

lemma optimize_Inl:
  "optimize lib tb figs n g cx mp r = Inl e \<Longrightarrow> e \<in> own_errors \<union> collaborator_errors lib tb"
  unfolding optimize_def
  by (auto simp: and_then_Inl_iff own_errors_def split: option.splits dest: optimize_state_Inl)

text \<open>
  C4, as amended. \<open>optimize\<close> has no validation step: for no configuration, valid or
  not, does it raise a ConfigurationError, unless one of its collaborators (the DEAP
  operators, the evaluation function, the hypervolume) raises it.
\<close>

theorem optimize_validates_nothing:
  "ConfigurationError \<notin> collaborator_errors lib tb \<Longrightarrow>
     optimize lib tb figs population_size number_of_generations crossover_probability
       mutation_probability r \<noteq> Inl ConfigurationError"
  using optimize_Inl [of lib tb figs population_size number_of_generations crossover_probability
      mutation_probability r ConfigurationError]
  by (auto simp: own_errors_def)

subsection \<open>The hypervolume\<close>

lemma call_mate_hypervolume:
  "call_mate (lib\<lparr>hypervolume := hv'\<rparr>) = call_mate lib"
  by (intro ext) (simp add: call_mate_def split: option.splits)

lemma call_mutate_hypervolume:
  "call_mutate (lib\<lparr>hypervolume := hv'\<rparr>) = call_mutate lib"
  by (intro ext) (simp add: call_mutate_def split: option.splits)

lemma crossover_step_hypervolume:
  "crossover_step (lib\<lparr>hypervolume := hv'\<rparr>) tb = crossover_step lib tb"
  unfolding crossover_step_def call_mate_hypervolume by simp

lemma mutation_step_hypervolume:
  "mutation_step (lib\<lparr>hypervolume := hv'\<rparr>) tb = mutation_step lib tb"
  unfolding mutation_step_def call_mutate_hypervolume by simp

lemma variation_hypervolume:
  "variation (lib\<lparr>hypervolume := hv'\<rparr>) tb cx pairs s = variation lib tb cx pairs s"
proof (induction pairs arbitrary: s)
  case Nil
  show ?case by simp
next
  case (Cons q pairs)
  obtain i j where q: "q = (i, j)" by (cases q)
  have f: "variation (lib\<lparr>hypervolume := hv'\<rparr>) tb cx pairs = variation lib tb cx pairs"
    by (intro ext) (rule Cons.IH)
  show ?case
    unfolding q variation.simps f crossover_step_hypervolume mutation_step_hypervolume
    by (rule refl)
qed

lemma plot_data_history:
  "plot_data plot (map (\<lambda>(g, v). [g, v]) (history @ [(g', v')])) = method_call plot"
proof -
  have "list_all (\<lambda>row. length row = 2) (map (\<lambda>(g, v). [g, v]) (history @ [(g', v')]))"
    by (simp add: list_all_iff split: prod.splits)
  moreover have "length (hd (map (\<lambda>(g, v). [g :: real, v]) (history @ [(g', v')]))) = 2"
    by (cases history) (simp_all split: prod.splits)
  ultimately show ?thesis
    by (cases "method_call plot") (simp_all add: plot_data_def column_def)
qed

lemma generation_step_hypervolume:
  assumes h1: "\<forall>inds ref. \<exists>v. hypervolume lib inds ref = Inr v"
    and h2: "\<forall>inds ref. \<exists>v. hv' inds ref = Inr v"
    and v: "selection_view st = selection_view st'"
  shows "map_sum id selection_view (generation_step lib tb figs n cx g st)
       = map_sum id selection_view
           (generation_step (lib\<lparr>hypervolume := hv'\<rparr>) tb figs n cx g st')"
proof -
  have p: "population st' = population st" and r: "rng st' = rng st"
    using v by (simp_all add: selection_view_def)
  obtain w1 where w1: "\<And>inds ref. hypervolume lib inds ref = Inr (w1 inds ref)"
    using h1 by metis
  obtain w2 where w2: "\<And>inds ref. hv' inds ref = Inr (w2 inds ref)"
    using h2 by metis
  show ?thesis
    unfolding generation_step_def variation_hypervolume p r Let_def plot_data_history
    by (simp add: and_then_def selection_view_def w1 w2 split: sum.splits prod.splits)
qed

lemma generations_hypervolume:
  assumes h1: "\<forall>inds ref. \<exists>v. hypervolume lib inds ref = Inr v"
    and h2: "\<forall>inds ref. \<exists>v. hv' inds ref = Inr v"
  shows "selection_view st = selection_view st' \<Longrightarrow>
     map_sum id selection_view (generations lib tb figs n cx gens st)
       = map_sum id selection_view
           (generations (lib\<lparr>hypervolume := hv'\<rparr>) tb figs n cx gens st')"
proof (induction gens arbitrary: st st')
  case Nil
  then show ?case by simp
next
  case (Cons g gens)
  note step = generation_step_hypervolume [OF h1 h2 Cons.prems, of tb figs n cx g]
  show ?case
  proof (cases "generation_step lib tb figs n cx g st")
    case (Inl e)
    with step have "generation_step (lib\<lparr>hypervolume := hv'\<rparr>) tb figs n cx g st' = Inl e"
      by (cases "generation_step (lib\<lparr>hypervolume := hv'\<rparr>) tb figs n cx g st'") simp_all
    with Inl show ?thesis by simp
  next
    case (Inr s1)
    with step obtain s1' where
      b: "generation_step (lib\<lparr>hypervolume := hv'\<rparr>) tb figs n cx g st' = Inr s1'"
      and c: "selection_view s1 = selection_view s1'"
      by (cases "generation_step (lib\<lparr>hypervolume := hv'\<rparr>) tb figs n cx g st'") simp_all
    show ?thesis
      using Cons.IH [OF c] by (simp add: Inr b)
  qed
qed

text \<open>
  C8. Two runs that differ only in the values the hypervolume collaborator returns have
  the same population and the same generator state when the loop ends, or fail with the
  same exception. This holds for every number of generations, and the population after
  generation \<open>k\<close> of a run is the final population of the run with \<open>k + 1\<close>
  generations (the loop over a list of generations is the loop over a prefix followed by
  the loop over the rest): the two runs go through the same sequence of populations.
\<close>

theorem hypervolume_not_used_for_selection:
  assumes "\<forall>inds ref. \<exists>v. hypervolume lib inds ref = Inr v"
    and "\<forall>inds ref. \<exists>v. hv' inds ref = Inr v"
  shows "map_sum id selection_view
           (optimize_state lib tb figs population_size number_of_generations
              crossover_probability mutation_probability r)
       = map_sum id selection_view
           (optimize_state (lib\<lparr>hypervolume := hv'\<rparr>) tb figs population_size
              number_of_generations crossover_probability mutation_probability r)"
proof -
  have pop: "toolbox_population (lib\<lparr>hypervolume := hv'\<rparr>) k r0 = toolbox_population lib k r0"
    for k r0
  proof (induction k arbitrary: r0)
    case 0
    show ?case by simp
  next
    case (Suc k)
    have u: "uniform_list (lib\<lparr>hypervolume := hv'\<rparr>) bounds r1 = uniform_list lib bounds r1"
      for bounds r1
      by (induction bounds arbitrary: r1) (auto split: prod.splits)
    show ?case
      by (simp add: Suc initialization_uniform_def u split: prod.splits)
  qed
  show ?thesis
    unfolding optimize_state_def Let_def pop
    by (auto simp: and_then_def selection_view_def split: sum.splits prod.splits
        intro!: generations_hypervolume [OF assms])
qed

lemma generations_append:
  "generations lib tb figs n cx (gs @ hs) st =
     and_then (generations lib tb figs n cx gs st) (generations lib tb figs n cx hs)"
proof (induction gs arbitrary: st)
  case Nil
  show ?case by simp
next
  case (Cons g gs)
  have "generations lib tb figs n cx (gs @ hs) =
      (\<lambda>s. and_then (generations lib tb figs n cx gs s) (generations lib tb figs n cx hs))"
    by (intro ext) (rule Cons.IH)
  then show ?case
    by (simp add: and_then_assoc)
qed

section \<open>The size of the population and of the mating pool\<close>

lemma toolbox_population_length: "length (fst (toolbox_population lib n r)) = n"
  by (induction n arbitrary: r) (simp_all add: split_beta Let_def)

lemma evaluate_individuals_length:
  "evaluate_individuals ev inds = Inr evaluated \<Longrightarrow> length evaluated = length inds"
  by (induction inds arbitrary: evaluated) (auto simp: and_then_Inr_iff)

lemma generation_step_population_size:
  assumes "selection_returns_k lib"
    and "generation_step lib tb figs population_size cx g st = Inr st'"
    and "length (population st) = nat population_size"
  shows "length (population st') = nat population_size"
proof -
  from assms(2) obtain evaluated where
    sel: "selNSGA2 lib (population st @ evaluated) population_size = Inr (population st')"
    unfolding generation_step_def Let_def
    by (auto simp: and_then_Inr_iff split: prod.splits)
  with assms(1) have "length (population st')
      = min (nat population_size) (length (population st @ evaluated))"
    by (simp add: selection_returns_k_def)
  with assms(3) show ?thesis by simp
qed

lemma generations_population_size:
  assumes "selection_returns_k lib"
  shows "generations lib tb figs population_size cx gens st = Inr st' \<Longrightarrow>
     length (population st) = nat population_size \<Longrightarrow>
     length (population st') = nat population_size"
proof (induction gens arbitrary: st)
  case Nil
  then show ?case by simp
next
  case (Cons g gens)
  from Cons.prems(1) obtain s1 where
    a: "generation_step lib tb figs population_size cx g st = Inr s1" and
    b: "generations lib tb figs population_size cx gens s1 = Inr st'"
    by (auto simp: and_then_Inr_iff)
  from generation_step_population_size [OF assms a Cons.prems(2)] Cons.IH [OF b]
  show ?case by simp
qed

text \<open>
  Every generation of a run starts from a population of \<open>population_size\<close>
  individuals: the state before the loop has that many, and so has the state after any
  number of generations.
\<close>

lemma initial_population_size:
  assumes "selection_returns_k lib"
    and "evaluate_individuals ev (fst (toolbox_population lib (nat population_size) r)) = Inr evaluated"
    and "selNSGA2 lib evaluated (int (length evaluated)) = Inr selected"
  shows "length selected = nat population_size"
proof -
  have "length evaluated = nat population_size"
    using evaluate_individuals_length [OF assms(2)] by (simp add: toolbox_population_length)
  moreover have "length selected = min (nat (int (length evaluated))) (length evaluated)"
    using assms(1,3) by (simp add: selection_returns_k_def)
  ultimately show ?thesis by simp
qed

lemma optimize_state_population_size:
  assumes "selection_returns_k lib"
    and "optimize_state lib tb figs population_size g cx mp r = Inr st"
  shows "length (population st) = nat population_size"
proof -
  obtain created r1 where cr: "toolbox_population lib (nat population_size) r = (created, r1)"
    by (cases "toolbox_population lib (nat population_size) r")
  from assms(2) obtain evaluated selected where
    ev: "evaluate_individuals (evaluate tb) created = Inr evaluated"
    and sel: "selNSGA2 lib evaluated (int (length evaluated)) = Inr selected"
    and gen: "generations lib (tb\<lparr>mutate := setattr (mutate tb) ''indpb'' mp\<rparr>) figs
                population_size cx [1..g - 1]
                \<lparr>population = selected, rng = r1, hypervolume_history = [(0, 0)],
                 hypervolume_value = None\<rparr> = Inr st"
    unfolding optimize_state_def Let_def cr
    by (auto simp: and_then_Inr_iff)
  have "length selected = nat population_size"
    using initial_population_size [OF assms(1), of "evaluate tb" population_size r] ev sel
    by (simp add: cr)
  then have "length (population \<lparr>population = selected, rng = r1,
      hypervolume_history = [(0, 0)], hypervolume_value = None\<rparr>) = nat population_size"
    by simp
  from generations_population_size [OF assms(1) gen this] show ?thesis .
qed

section \<open>The mutation of the offspring\<close>


section \<open>A population whose size is not a multiple of four\<close>



lemma odd_list_last_position_unpaired:
  assumes "odd n"
  shows "n - 1 \<notin> fst ` set (mating_pairs n)" and "n - 1 \<notin> snd ` set (mating_pairs n)"
proof -
  have ne: "n \<noteq> 0"
  proof
    assume "n = 0"
    with assms show False by simp
  qed
  have pos: "fst ` set (mating_pairs n) \<union> snd ` set (mating_pairs n) = set (butlast [0..<n])"
    using zip_slices_positions [of "[0..<n]"] assms by (simp add: mating_pairs_def)
  have bl: "set (butlast [0..<n]) = {0..<n - 1}"
    using ne by (cases n) (simp_all add: butlast_append)
  show "n - 1 \<notin> fst ` set (mating_pairs n)" and "n - 1 \<notin> snd ` set (mating_pairs n)"
    using pos bl by auto
qed

text \<open>
  On a list of odd length the variation loop leaves the last position alone: no call
  names it, and the object there stays what it was.
\<close>

lemma odd_list_last_position_untouched:
  assumes "odd (length pool)"
    and "variation lib tb crossover_probability (mating_pairs (length pool))
           \<lparr>offspring = map clone pool, vrng = r, calls = []\<rparr> = Inr s"
  shows "list_all (\<lambda>c. length pool - 1 \<notin> positions c) (calls s)"
    and "offspring s ! (length pool - 1) = clone (last pool)"
proof -
  let ?n = "length pool"
  let ?pairs = "mating_pairs ?n"
  have ne: "pool \<noteq> []" using assms(1) by auto
  note out = odd_list_last_position_unpaired [OF assms(1)]
  have "?n - 1 \<notin> positions c" if "c \<in> set (calls s)" for c
  proof -
    from that variation_calls [OF assms(2)]
    obtain i j where ij: "(i, j) \<in> set ?pairs" and c: "c \<in> {Mate i j, Mutate i, Mutate j}"
      by auto
    from ij have "fst (i, j) \<in> fst ` set ?pairs" "snd (i, j) \<in> snd ` set ?pairs"
      by (rule imageI)+
    then have "i \<in> fst ` set ?pairs" "j \<in> snd ` set ?pairs"
      by simp_all
    with out have "i \<noteq> ?n - 1" "j \<noteq> ?n - 1" by blast+
    with c show "?n - 1 \<notin> positions c" by auto
  qed
  then show "list_all (\<lambda>c. ?n - 1 \<notin> positions c) (calls s)"
    by (simp add: list_all_iff)
  show "offspring s ! (?n - 1) = clone (last pool)"
    using variation_untouched [OF assms(2) out] ne by (simp add: last_conv_nth clone_def)
qed


section \<open>Runs of \<open>optimize\<close> with the notebook's toolbox\<close>

text \<open>
  The runs below are calls of \<open>optimize\<close> with the notebook's own toolbox (its
  evaluation function \<open>welded_beam_design\<close> and its registrations of the operators),
  the figures as the button handler leaves them, the small collaborators and the draws
  \<open>small_draws\<close>. The population sizes are 4, which the tournament of DEAP
  accepts, and 3, which it does not.
\<close>

subsection \<open>What the evaluation function can raise\<close>

lemma py_div_Inl: "py_div a b = Inl e \<Longrightarrow> e = ZeroDivisionError"
  by (simp add: py_div_def split: if_splits)

lemma py_sqrt_Inl: "py_sqrt a = Inl e \<Longrightarrow> e = ValueError"
  by (simp add: py_sqrt_def split: if_splits)

lemma py_index_Inl: "py_index xs i = Inl e \<Longrightarrow> e = IndexError"
  by (simp add: py_index_def split: if_splits)

lemma problem_encoding_Inl: "problem_encoding x = Inl e \<Longrightarrow> e = IndexError"
  unfolding problem_encoding_def Let_def
  by (auto simp: and_then_Inl_iff dest: py_index_Inl)

lemma beam_fitness_Inl:
  "beam_fitness b h l t = Inl e \<Longrightarrow> e = ZeroDivisionError \<or> e = ValueError"
  unfolding beam_fitness_def Let_def
  by (auto simp: and_then_Inl_iff dest: py_div_Inl py_sqrt_Inl)

lemma welded_beam_design_Inl:
  "welded_beam_design x = Inl e \<Longrightarrow> e = IndexError \<or> e = ZeroDivisionError \<or> e = ValueError"
  unfolding welded_beam_design_def
  by (auto simp: and_then_Inl_iff dest: problem_encoding_Inl beam_fitness_Inl)

lemma small_collaborators_raise:
  "collaborator_errors small_deap notebook_toolbox \<subseteq> {IndexError, ZeroDivisionError, ValueError}"
  by (auto simp: collaborator_errors_def small_deap_def notebook_toolbox_def
      split: if_splits dest: welded_beam_design_Inl)


subsection \<open>Four individuals, two generations\<close>

lemma mating_pairs_4: "mating_pairs 4 = [(0, 1), (2, 3)]"
  by code_simp

lemma small_population_created:
  "toolbox_population (small_deap\<lparr>hypervolume := hv\<rparr>) (nat 4) small_draws =
     ([\<lparr>genes = [1/2, 1/2, 1/2, 1/2], fitness_values = []\<rparr>,
       \<lparr>genes = [1/4, 1/4, 1/4, 1/4], fitness_values = []\<rparr>,
       \<lparr>genes = [0, 0, 0, 0], fitness_values = []\<rparr>,
       \<lparr>genes = [3/4, 3/4, 3/4, 3/4], fitness_values = []\<rparr>], [0, 19/20])"
  by (simp add: eval_nat_numeral initialization_uniform_def number_of_attributes_def
      attribute_bound_lower_def attribute_bound_upper_def small_deap_def list_random_def
      small_draws_def)

text \<open>
  One generation, for any evaluation function that returns two numbers at the gene vector
  of the offspring and any hypervolume that returns a value \<open>v\<close>. The tournament
  returns the four parents; the two draws are the crossover tests of the two pairs;
  whatever the tests decide, the small mutation then sets every gene of every offspring
  to the \<open>indpb\<close> it is called with, which is 0.1; the selection keeps the four
  offspring; all plotting statements succeed.
\<close>

lemma small_generation:
  fixes ev hv mutation_probability crossover_probability a1 b1 a2 b2 a3 b3 a4 b4 a5 b5
  defines "lib \<equiv> small_deap\<lparr>hypervolume := hv\<rparr>"
    and "tb \<equiv> \<lparr>evaluate = ev, mate = registered_mate,
                 mutate = setattr registered_mutate ''indpb'' mutation_probability\<rparr>"
    and "child \<equiv> \<lparr>genes = [1/10, 1/10, 1/10, 1/10], fitness_values = [a5, b5]\<rparr>"
    and "parents \<equiv> [\<lparr>genes = [3/4, 3/4, 3/4, 3/4], fitness_values = [a4, b4]\<rparr>,
                      \<lparr>genes = [0, 0, 0, 0], fitness_values = [a3, b3]\<rparr>,
                      \<lparr>genes = [1/4, 1/4, 1/4, 1/4], fitness_values = [a2, b2]\<rparr>,
                      \<lparr>genes = [1/2, 1/2, 1/2, 1/2], fitness_values = [a1, b1]\<rparr>]"
  assumes ev: "ev [1/10, 1/10, 1/10, 1/10] = Inr [a5, b5]"
    and hv: "hv [child, child, child, child] reference_point = Inr v"
  shows "generation_step lib tb figures_shown 4 crossover_probability 1
           \<lparr>population = parents, rng = [0, 19/20], hypervolume_history = [(0, 0)],
            hypervolume_value = None\<rparr>
         = Inr \<lparr>population = [child, child, child, child], rng = [],
                hypervolume_history = [(0, 0), (1, v)], hypervolume_value = Some v\<rparr>"
proof -
  let ?mutated = "[\<lparr>genes = [1/10, 1/10, 1/10, 1/10], fitness_values = [a4, b4]\<rparr>,
                   \<lparr>genes = [1/10, 1/10, 1/10, 1/10], fitness_values = [a3, b3]\<rparr>,
                   \<lparr>genes = [1/10, 1/10, 1/10, 1/10], fitness_values = [a2, b2]\<rparr>,
                   \<lparr>genes = [1/10, 1/10, 1/10, 1/10], fitness_values = [a1, b1]\<rparr>]"
  let ?children = "[child, child, child, child]"
  have len: "length parents = 4"
    by (simp add: parents_def)
  have tournament:
    "selTournamentDCD lib parents (int (length parents)) [0, 19/20] = Inr (parents, [0, 19/20])"
    by (simp add: lib_def small_deap_def len)
  have "\<exists>vs. variation lib tb crossover_probability [(0, 1), (2, 3)]
               \<lparr>offspring = map clone parents, vrng = [0, 19/20], calls = []\<rparr> = Inr vs
            \<and> offspring vs = ?mutated \<and> vrng vs = []"
    by (simp add: lib_def tb_def parents_def small_deap_def clone_def crossover_step_def
        mutation_step_def call_mate_def call_mutate_def setattr_def registered_mate_def
        registered_mutate_def register_def attribute_bound_lower_def attribute_bound_upper_def
        list_random_def)
  then obtain vs where
    variation: "variation lib tb crossover_probability (mating_pairs (length parents))
               \<lparr>offspring = map clone parents, vrng = [0, 19/20], calls = []\<rparr> = Inr vs"
    and vs: "offspring vs = ?mutated" "vrng vs = []"
    unfolding len mating_pairs_4 by (elim exE conjE)
  have evaluation: "evaluate_individuals (evaluate tb) ?mutated = Inr ?children"
    by (simp add: ev child_def tb_def)
  have selection: "selNSGA2 lib (parents @ ?children) 4 = Inr ?children"
    by (simp add: lib_def small_deap_def len)
  have sort: "sortNondominated lib ?children (int (length ?children)) = Inr [?children]"
    by (simp add: lib_def small_deap_def)
  have index: "py_index [?children] 0 = Inr ?children"
    by (simp add: py_index_def)
  have figs: "method_call (hypervolume_subfigure figures_shown) = Inr ()"
    "method_call (objective_space_subfigure figures_shown) = Inr ()"
    "method_call (main_figure figures_shown) = Inr ()"
    by (simp_all add: method_call_def figures_shown_def)
  have hv': "hypervolume lib ?children reference_point = Inr v"
    by (simp add: lib_def hv)
  have plots:
    "plot_data (hypervolume_subfigure figures_shown)
       (map (\<lambda>(g, v). [g, v]) ([(0, 0)] @ [(of_int 1, v)])) = Inr ()"
    "plot_data (objective_space_subfigure figures_shown) (fitness_data ?children) = Inr ()"
    by (simp_all add: plot_data_def figs column_def fitness_data_def child_def)
  show ?thesis
    apply (simp only: generation_step_def driver_state.select_convs tournament and_then_Inr
        prod.case variation vs evaluation selection sort index figs hv' Let_def plots)
    apply simp
    done
qed

lemma small_run:
  fixes ev hv mutation_probability crossover_probability a5 b5
  defines "lib \<equiv> small_deap\<lparr>hypervolume := hv\<rparr>"
    and "toolbox0 \<equiv> \<lparr>evaluate = ev, mate = registered_mate, mutate = registered_mutate\<rparr>"
    and "child \<equiv> \<lparr>genes = [1/10, 1/10, 1/10, 1/10], fitness_values = [a5, b5]\<rparr>"
  assumes ev: "ev [1/2, 1/2, 1/2, 1/2] = Inr [a1, b1]" "ev [1/4, 1/4, 1/4, 1/4] = Inr [a2, b2]"
      "ev [0, 0, 0, 0] = Inr [a3, b3]" "ev [3/4, 3/4, 3/4, 3/4] = Inr [a4, b4]"
      "ev [1/10, 1/10, 1/10, 1/10] = Inr [a5, b5]"
    and hv: "hv [child, child, child, child] reference_point = Inr v"
  shows "optimize_state lib toolbox0 figures_shown 4 2 crossover_probability
           mutation_probability small_draws
         = Inr \<lparr>population = [child, child, child, child], rng = [],
                hypervolume_history = [(0, 0), (1, v)], hypervolume_value = Some v\<rparr>"
proof -
  let ?tb = "\<lparr>evaluate = ev, mate = registered_mate,
              mutate = setattr registered_mutate ''indpb'' mutation_probability\<rparr>"
  let ?evaluated = "[\<lparr>genes = [1/2, 1/2, 1/2, 1/2], fitness_values = [a1, b1]\<rparr>,
                     \<lparr>genes = [1/4, 1/4, 1/4, 1/4], fitness_values = [a2, b2]\<rparr>,
                     \<lparr>genes = [0, 0, 0, 0], fitness_values = [a3, b3]\<rparr>,
                     \<lparr>genes = [3/4, 3/4, 3/4, 3/4], fitness_values = [a4, b4]\<rparr>]"
  have tb: "toolbox0\<lparr>mutate := setattr (mutate toolbox0) ''indpb'' mutation_probability\<rparr> = ?tb"
    by (simp add: toolbox0_def)
  have created: "toolbox_population lib (nat 4) small_draws =
     ([\<lparr>genes = [1/2, 1/2, 1/2, 1/2], fitness_values = []\<rparr>,
       \<lparr>genes = [1/4, 1/4, 1/4, 1/4], fitness_values = []\<rparr>,
       \<lparr>genes = [0, 0, 0, 0], fitness_values = []\<rparr>,
       \<lparr>genes = [3/4, 3/4, 3/4, 3/4], fitness_values = []\<rparr>], [0, 19/20])"
    unfolding lib_def by (rule small_population_created)
  have evaluation: "evaluate_individuals (evaluate ?tb)
     [\<lparr>genes = [1/2, 1/2, 1/2, 1/2], fitness_values = []\<rparr>,
      \<lparr>genes = [1/4, 1/4, 1/4, 1/4], fitness_values = []\<rparr>,
      \<lparr>genes = [0, 0, 0, 0], fitness_values = []\<rparr>,
      \<lparr>genes = [3/4, 3/4, 3/4, 3/4], fitness_values = []\<rparr>] = Inr ?evaluated"
    by (simp add: ev)
  have selection: "selNSGA2 lib ?evaluated (int (length ?evaluated)) = Inr (rev ?evaluated)"
    by (simp add: lib_def small_deap_def)
  have gens: "[1..2 - 1] = [1 :: int]"
    by (simp add: upto.simps)
  have step: "generation_step lib ?tb figures_shown 4 crossover_probability 1
           \<lparr>population = rev ?evaluated, rng = [0, 19/20], hypervolume_history = [(0, 0)],
            hypervolume_value = None\<rparr>
         = Inr \<lparr>population = [child, child, child, child], rng = [],
                hypervolume_history = [(0, 0), (1, v)], hypervolume_value = Some v\<rparr>"
    unfolding lib_def child_def rev.simps append.simps
    by (rule small_generation) (use ev(5) hv in \<open>simp_all add: child_def\<close>)
  show ?thesis
    by (simp only: optimize_state_def Let_def tb created prod.case evaluation and_then_Inr
        selection gens generations.simps step)
qed

lemma small_runs_notebook_evaluation:
  "0 \<le> u \<Longrightarrow> u \<le> 1 \<Longrightarrow> \<exists>y1 y2. welded_beam_design [u, u, u, u] = Inr [y1, y2]"
  using welded_beam_design_domain [of "[u, u, u, u]"] by auto

lemma small_run_notebook_state:
  assumes "\<And>inds. hv inds reference_point = Inr (h inds)"
  shows "\<exists>a b. optimize_state (small_deap\<lparr>hypervolume := hv\<rparr>) notebook_toolbox figures_shown 4 2
                 crossover_probability mutation_probability small_draws
               = Inr \<lparr>population =
                        replicate 4 \<lparr>genes = [1/10, 1/10, 1/10, 1/10], fitness_values = [a, b]\<rparr>,
                      rng = [],
                      hypervolume_history =
                        [(0, 0), (1, h (replicate 4
                           \<lparr>genes = [1/10, 1/10, 1/10, 1/10], fitness_values = [a, b]\<rparr>))],
                      hypervolume_value =
                        Some (h (replicate 4
                           \<lparr>genes = [1/10, 1/10, 1/10, 1/10], fitness_values = [a, b]\<rparr>))\<rparr>"
proof -
  obtain a1 b1 where 1: "welded_beam_design [1/2, 1/2, 1/2, 1/2] = Inr [a1, b1]"
    using small_runs_notebook_evaluation [of "1/2"] by auto
  obtain a2 b2 where 2: "welded_beam_design [1/4, 1/4, 1/4, 1/4] = Inr [a2, b2]"
    using small_runs_notebook_evaluation [of "1/4"] by auto
  obtain a3 b3 where 3: "welded_beam_design [0, 0, 0, 0] = Inr [a3, b3]"
    using small_runs_notebook_evaluation [of 0] by auto
  obtain a4 b4 where 4: "welded_beam_design [3/4, 3/4, 3/4, 3/4] = Inr [a4, b4]"
    using small_runs_notebook_evaluation [of "3/4"] by auto
  obtain a5 b5 where 5: "welded_beam_design [1/10, 1/10, 1/10, 1/10] = Inr [a5, b5]"
    using small_runs_notebook_evaluation [of "1/10"] by auto
  have four: "replicate 4 x = [x, x, x, x]" for x :: individual
    by (simp add: eval_nat_numeral)
  show ?thesis
    unfolding four notebook_toolbox_def
    by (intro exI [of _ a5] exI [of _ b5]) (rule small_run [OF 1 2 3 4 5], rule assms)
qed

text \<open>
  With the small hypervolume, the sum of the sixteen genes of the final population, the
  result is \<open>16 * 0.1\<close> for every crossover and mutation probability.
\<close>

lemma small_run_notebook:
  "optimize small_deap notebook_toolbox figures_shown 4 2 crossover_probability
     mutation_probability small_draws = Inr (8/5)"
proof -
  have lib: "small_deap\<lparr>hypervolume := hypervolume small_deap\<rparr> = small_deap"
    by simp
  have "hypervolume small_deap inds reference_point = Inr (sum_list (concat (map genes inds)))"
    for inds
    by (simp add: small_deap_def)
  from small_run_notebook_state
    [where hv = "hypervolume small_deap" and crossover_probability = crossover_probability
       and mutation_probability = mutation_probability, OF this]
  obtain a b where "optimize_state small_deap notebook_toolbox figures_shown 4 2
      crossover_probability mutation_probability small_draws
    = Inr \<lparr>population =
             replicate 4 \<lparr>genes = [1/10, 1/10, 1/10, 1/10], fitness_values = [a, b]\<rparr>,
           rng = [],
           hypervolume_history =
             [(0, 0), (1, sum_list (concat (map genes (replicate 4
                \<lparr>genes = [1/10, 1/10, 1/10, 1/10], fitness_values = [a, b]\<rparr>))))],
           hypervolume_value =
             Some (sum_list (concat (map genes (replicate 4
                \<lparr>genes = [1/10, 1/10, 1/10, 1/10], fitness_values = [a, b]\<rparr>))))\<rparr>"
    unfolding lib by (elim exE)
  then show ?thesis
    by (simp add: optimize_def eval_nat_numeral)
qed

text \<open>
  \<open>optimize(4, 2, 0.9, 0.5)\<close>: the call asks for the mutation probability 0.5,
  and every gene of the final population is the 0.1 of the registration.
\<close>

lemma small_run_uses_registered_indpb:
  "optimize small_deap notebook_toolbox figures_shown 4 2 (9/10) (1/2) small_draws = Inr (8/5)"
  by (rule small_run_notebook)

text \<open>
  \<open>optimize(4, 1, ...)\<close>: the population is created, evaluated and selected, the
  loop does not run, and the \<open>return\<close> raises UnboundLocalError.
\<close>

lemma small_run_one_generation:
  "optimize small_deap notebook_toolbox figures_shown 4 1 crossover_probability
     mutation_probability small_draws = Inl UnboundLocalError"
proof -
  obtain a1 b1 where 1: "welded_beam_design [1/2, 1/2, 1/2, 1/2] = Inr [a1, b1]"
    using small_runs_notebook_evaluation [of "1/2"] by auto
  obtain a2 b2 where 2: "welded_beam_design [1/4, 1/4, 1/4, 1/4] = Inr [a2, b2]"
    using small_runs_notebook_evaluation [of "1/4"] by auto
  obtain a3 b3 where 3: "welded_beam_design [0, 0, 0, 0] = Inr [a3, b3]"
    using small_runs_notebook_evaluation [of 0] by auto
  obtain a4 b4 where 4: "welded_beam_design [3/4, 3/4, 3/4, 3/4] = Inr [a4, b4]"
    using small_runs_notebook_evaluation [of "3/4"] by auto
  have created: "toolbox_population small_deap (nat 4) small_draws =
     ([\<lparr>genes = [1/2, 1/2, 1/2, 1/2], fitness_values = []\<rparr>,
       \<lparr>genes = [1/4, 1/4, 1/4, 1/4], fitness_values = []\<rparr>,
       \<lparr>genes = [0, 0, 0, 0], fitness_values = []\<rparr>,
       \<lparr>genes = [3/4, 3/4, 3/4, 3/4], fitness_values = []\<rparr>], [0, 19/20])"
    using small_population_created [of "hypervolume small_deap"] by simp
  have "optimize_state small_deap notebook_toolbox figures_shown 4 1 crossover_probability
          mutation_probability small_draws
        = Inr \<lparr>population = [\<lparr>genes = [3/4, 3/4, 3/4, 3/4], fitness_values = [a4, b4]\<rparr>,
                             \<lparr>genes = [0, 0, 0, 0], fitness_values = [a3, b3]\<rparr>,
                             \<lparr>genes = [1/4, 1/4, 1/4, 1/4], fitness_values = [a2, b2]\<rparr>,
                             \<lparr>genes = [1/2, 1/2, 1/2, 1/2], fitness_values = [a1, b1]\<rparr>],
               rng = [0, 19/20], hypervolume_history = [(0, 0)], hypervolume_value = None\<rparr>"
    unfolding optimize_state_def Let_def created upto_1_0
    by (simp add: notebook_toolbox_def 1 2 3 4 small_deap_def)
  then show ?thesis
    by (simp add: optimize_def)
qed

text \<open>
  C4, as stated, fails: the configuration \<open>optimize(4, 2, 1.5, -0.5)\<close> has a
  crossover probability above 1 and a negative mutation probability, and the call raises
  nothing. It creates and evaluates its four individuals, runs its generation and returns
  the hypervolume.
\<close>

theorem invalid_configuration_runs:
  "optimize small_deap notebook_toolbox figures_shown 4 2 (3/2) (-1/2) small_draws = Inr (8/5)"
  by (rule small_run_notebook)

theorem optimize_validates_nothing_witness:
  "ConfigurationError \<notin> collaborator_errors small_deap notebook_toolbox
   \<and> optimize small_deap notebook_toolbox figures_shown 4 2 (3/2) (-1/2) small_draws
       \<noteq> Inl ConfigurationError"
  using optimize_validates_nothing
    [of small_deap notebook_toolbox figures_shown 4 2 "3/2" "-1/2" small_draws]
    small_collaborators_raise
  by auto

text \<open>
  Two runs that differ in the hypervolume collaborator: the value returned differs, the
  final population and the state of the generator do not.
\<close>

lemma small_run_other_hypervolume:
  "optimize (small_deap\<lparr>hypervolume := (\<lambda>inds ref. Inr 7)\<rparr>) notebook_toolbox figures_shown 4 2
     crossover_probability mutation_probability small_draws = Inr 7"
proof -
  from small_run_notebook_state
    [where hv = "\<lambda>inds ref. Inr 7" and h = "\<lambda>inds. 7"
       and crossover_probability = crossover_probability
       and mutation_probability = mutation_probability]
  obtain st where "optimize_state (small_deap\<lparr>hypervolume := (\<lambda>inds ref. Inr 7)\<rparr>)
      notebook_toolbox figures_shown 4 2 crossover_probability mutation_probability small_draws
    = Inr st" and "hypervolume_value st = Some 7"
    by auto
  then show ?thesis
    by (simp add: optimize_def)
qed

theorem hypervolume_not_used_for_selection_witness:
  "(\<forall>inds ref. \<exists>v. hypervolume small_deap inds ref = Inr v)
   \<and> (\<forall>(inds :: individual list) (ref :: real list). \<exists>v. (Inr 7 :: py_error + real) = Inr v)
   \<and> map_sum id selection_view
         (optimize_state small_deap notebook_toolbox figures_shown 4 2 (9/10) (1/10) small_draws)
       = map_sum id selection_view
           (optimize_state (small_deap\<lparr>hypervolume := (\<lambda>inds ref. Inr 7)\<rparr>) notebook_toolbox
              figures_shown 4 2 (9/10) (1/10) small_draws)"
  using hypervolume_not_used_for_selection
    [of small_deap "\<lambda>inds ref. Inr 7" notebook_toolbox figures_shown 4 2 "9/10" "1/10" small_draws]
  by (simp add: small_deap_def)


subsection \<open>Three individuals\<close>




end
